theory Spec2Isabelle
  imports Main
begin

section \<open>The Cognito user pool resource handler\<close>

text \<open>
  A shallow embedding of \<^verbatim>\<open>aws/resource_aws_cognito_user_pool.go\<close>: the schema of the
  resource and its four handlers (Create, Read, Update, Delete). The handlers work on a
  \<^verbatim>\<open>*schema.ResourceData\<close> and talk to the remote service through the connection
  \<^verbatim>\<open>meta.(*AWSClient).cognitoidpconn\<close>. Both are made explicit here: the resource data
  is a record that the handlers return updated, and every remote call is recorded in a
  list of calls that the handlers return as well.
\<close>

subsection \<open>Errors and panics\<close>

text \<open>
  A Go \<^verbatim>\<open>error\<close> value. \<open>AwsErr code message\<close> is an error that implements
  \<^verbatim>\<open>awserr.Error\<close> (the type assertion \<^verbatim>\<open>err.(awserr.Error)\<close> succeeds exactly on
  it), \<open>ErrorsNew msg\<close> is \<^verbatim>\<open>errors.New(msg)\<close> (and stands for any other error that is
  only a message), \<open>Wrapf format err\<close> is \<^verbatim>\<open>errwrap.Wrapf(format, err)\<close>.
\<close>

datatype error =
    AwsErr string string
  | ErrorsNew string
  | Wrapf string error

text \<open>The run-time panics the handlers can raise.\<close>

datatype panic =
    IndexOutOfRange        \<comment> \<open>\<^verbatim>\<open>configs[0]\<close> on an empty slice\<close>
  | InterfaceConversion    \<comment> \<open>\<^verbatim>\<open>x.(string)\<close> on a nil interface value\<close>
  | NilDereference         \<comment> \<open>\<^verbatim>\<open>*p\<close> or \<^verbatim>\<open>p.f\<close> on a nil pointer\<close>
  | HelperPanic            \<comment> \<open>a panic raised inside a helper of the provider\<close>

text \<open>How a handler can fail: it returns a non-nil error, or it panics.\<close>

datatype failure = Returned error | Panicked panic

subsection \<open>The schema and the resource data\<close>

text \<open>
  An element of a block list (\<^verbatim>\<open>email_configuration\<close>, \<^verbatim>\<open>sms_configuration\<close>) is an
  \<^verbatim>\<open>interface{}\<close>. \<open>ElemNil\<close> is an element that is not a
  \<^verbatim>\<open>map[string]interface{}\<close> (the nil interface that an empty block gives);
  \<open>ElemMap None\<close> is a nil map of that type, \<open>ElemMap (Some m)\<close> a map. The fields of
  both blocks are of \<^verbatim>\<open>schema.TypeString\<close>, so the values of the map are strings.
\<close>

datatype elem = ElemNil | ElemMap "(string \<rightharpoonup> string) option"

text \<open>
  The values of the keys of the schema (lines 21 to 121), each with the Go type that
  \<^verbatim>\<open>d.Get\<close> gives for the key's schema type. A key that is not set has the zero value
  of its type.
\<close>

record schema_values =
  alias_attributes :: "string list"
  auto_verified_attributes :: "string list"
  email_configuration :: "elem list"
  email_verification_subject :: string
  email_verification_message :: string
  mfa_configuration :: string
  name :: string
  sms_authentication_message :: string
  sms_configuration :: "elem list"
  sms_verification_message :: string
  tags :: "string \<rightharpoonup> string"

text \<open>
  \<^verbatim>\<open>schema.ResourceData\<close>: the identifier, the values of the prior state (the old side
  of \<^verbatim>\<open>d.GetChange\<close>) and the current values (what \<^verbatim>\<open>d.Get\<close> reads: the configuration
  merged over the state, then whatever \<^verbatim>\<open>d.Set\<close> wrote).
\<close>

record ResourceData =
  rd_id :: string
  rd_old :: schema_values
  rd_new :: schema_values

text \<open>A key is given by its selector, and by its update function where it is written.\<close>

definition Get :: "(schema_values \<Rightarrow> 'a) \<Rightarrow> ResourceData \<Rightarrow> 'a" where
  "Get key d = key (rd_new d)"

text \<open>
  \<^verbatim>\<open>d.GetOk(key)\<close>: the value, and whether it has been set to a value that is not the
  zero value of the key's type (given as \<open>zero\<close>: the empty string, list or map).
\<close>

definition GetOk :: "(schema_values \<Rightarrow> 'a) \<Rightarrow> 'a \<Rightarrow> ResourceData \<Rightarrow> 'a \<times> bool" where
  "GetOk key zero d = (Get key d, Get key d \<noteq> zero)"

text \<open>\<^verbatim>\<open>d.HasChange(key)\<close>: the old and the new value are not deeply equal.\<close>

definition HasChange :: "(schema_values \<Rightarrow> 'a) \<Rightarrow> ResourceData \<Rightarrow> bool" where
  "HasChange key d = (key (rd_old d) \<noteq> key (rd_new d))"

definition Set_value ::
  "(('a \<Rightarrow> 'a) \<Rightarrow> schema_values \<Rightarrow> schema_values) \<Rightarrow> 'a \<Rightarrow> ResourceData \<Rightarrow> ResourceData" where
  "Set_value key_update v d = d\<lparr>rd_new := key_update (\<lambda>_. v) (rd_new d)\<rparr>"

definition SetId :: "string \<Rightarrow> ResourceData \<Rightarrow> ResourceData" where
  "SetId v d = d\<lparr>rd_id := v\<rparr>"

subsection \<open>The requests and responses of the service\<close>

text \<open>
  The structs of \<^verbatim>\<open>cognitoidentityprovider\<close>, with the fields the handlers use. A field
  of pointer, slice or map type is an option: \<open>None\<close> is nil (the field is not part of
  the request), \<open>Some v\<close> is a value (\<^verbatim>\<open>aws.String(v)\<close> for a string). The fields of the
  three user pool structs carry a prefix, since they share their names in Go.
\<close>

record EmailConfigurationType =
  ReplyToEmailAddress :: "string option"
  SourceArn :: "string option"

record SmsConfigurationType =
  SnsCallerArn :: "string option"
  ExternalId :: "string option"

record CreateUserPoolInput =
  c_PoolName :: "string option"
  c_AliasAttributes :: "string list option"
  c_AutoVerifiedAttributes :: "string list option"
  c_EmailConfiguration :: "EmailConfigurationType option"
  c_EmailVerificationSubject :: "string option"
  c_EmailVerificationMessage :: "string option"
  c_MfaConfiguration :: "string option"
  c_SmsAuthenticationMessage :: "string option"
  c_SmsConfiguration :: "SmsConfigurationType option"
  c_SmsVerificationMessage :: "string option"
  c_UserPoolTags :: "(string \<rightharpoonup> string) option"

record UpdateUserPoolInput =
  u_UserPoolId :: "string option"
  u_AutoVerifiedAttributes :: "string list option"
  u_EmailConfiguration :: "EmailConfigurationType option"
  u_EmailVerificationSubject :: "string option"
  u_EmailVerificationMessage :: "string option"
  u_MfaConfiguration :: "string option"
  u_SmsAuthenticationMessage :: "string option"
  u_SmsConfiguration :: "SmsConfigurationType option"
  u_SmsVerificationMessage :: "string option"
  u_UserPoolTags :: "(string \<rightharpoonup> string) option"

record DescribeUserPoolInput =
  r_UserPoolId :: "string option"

record DeleteUserPoolInput =
  x_UserPoolId :: "string option"

text \<open>\<^verbatim>\<open>cognitoidentityprovider.UserPoolType\<close>, the user pool of a response.\<close>

record UserPoolType =
  p_Id :: "string option"
  p_AliasAttributes :: "string list option"
  p_AutoVerifiedAttributes :: "string list option"
  p_EmailConfiguration :: "EmailConfigurationType option"
  p_EmailVerificationSubject :: "string option"
  p_EmailVerificationMessage :: "string option"
  p_MfaConfiguration :: "string option"
  p_SmsAuthenticationMessage :: "string option"
  p_SmsConfiguration :: "SmsConfigurationType option"
  p_SmsVerificationMessage :: "string option"
  p_UserPoolTags :: "(string \<rightharpoonup> string) option"

text \<open>
  The connection. A call returns \<^verbatim>\<open>(resp, err)\<close>: \<open>Inl err\<close> is a non-nil \<^verbatim>\<open>err\<close>,
  \<open>Inr resp\<close> a response with a nil \<^verbatim>\<open>err\<close>. Of a response only its \<^verbatim>\<open>UserPool\<close>
  pointer is read, so that pointer is the response. A handler issues each call at most
  once, so a function of the request covers every answer the service can give.
\<close>

record cognitoidpconn =
  CreateUserPool :: "CreateUserPoolInput \<Rightarrow> error + UserPoolType option"
  DescribeUserPool :: "DescribeUserPoolInput \<Rightarrow> error + UserPoolType option"
  UpdateUserPool :: "UpdateUserPoolInput \<Rightarrow> error + unit"
  DeleteUserPool :: "DeleteUserPoolInput \<Rightarrow> error + unit"

datatype call =
    CreateUserPoolCall CreateUserPoolInput
  | DescribeUserPoolCall DescribeUserPoolInput
  | UpdateUserPoolCall UpdateUserPoolInput
  | DeleteUserPoolCall DeleteUserPoolInput

text \<open>
  What a call of a helper gives: the helper panics, or it returns a value.
\<close>

datatype 'a outcome = Panics | Returns 'a

text \<open>
  The helpers of the provider that this file calls and does not define, taken as
  parameters with their Go types (a slice or map they return may be nil), and
  \<open>SetError\<close>: the error, if any, that \<^verbatim>\<open>d.Set\<close> returns for a block list, which Read
  examines for \<^verbatim>\<open>email_configuration\<close> and \<^verbatim>\<open>sms_configuration\<close> only. The three
  helpers of lines 262 to 270 are called on a field of the response with no test that
  the field is there, so what they do on a nil field, a panic included, is theirs to say.
\<close>

record helpers =
  expandStringList :: "string list \<Rightarrow> string list option"
  flattenStringList :: "string list \<Rightarrow> string list"
  tagsFromMapGeneric :: "(string \<rightharpoonup> string) \<Rightarrow> (string \<rightharpoonup> string) option"
  tagsToMapGeneric :: "(string \<rightharpoonup> string) option \<Rightarrow> (string \<rightharpoonup> string) outcome"
  flattenCognitoUserPoolEmailConfiguration ::
    "EmailConfigurationType option \<Rightarrow> (string \<rightharpoonup> string) list outcome"
  flattenCognitoUserPoolSmsConfiguration ::
    "SmsConfigurationType option \<Rightarrow> (string \<rightharpoonup> string) list outcome"
  SetError :: "string \<Rightarrow> (string \<rightharpoonup> string) list \<Rightarrow> error option"

subsection \<open>Expanding the configuration blocks\<close>

text \<open>
  Lines 141 to 160 of Create and, word for word, lines 289 to 308 of Update: the first
  element of the block list is taken without a look at the length of the list; an element
  that is not a map is the error \<^verbatim>\<open>email_configuration is <nil>\<close>; a nil map leaves the
  field of the request as it is (\<open>Inr None\<close>); a map gives the field.
\<close>

definition expandEmailConfiguration ::
  "elem list \<Rightarrow> failure + EmailConfigurationType option" where
  "expandEmailConfiguration configs =
     (case configs of
        [] \<Rightarrow> Inl (Panicked IndexOutOfRange)
      | ElemNil # _ \<Rightarrow> Inl (Returned (ErrorsNew ''email_configuration is <nil>''))
      | ElemMap None # _ \<Rightarrow> Inr None
      | ElemMap (Some config) # _ \<Rightarrow>
          Inr (Some \<lparr>
            ReplyToEmailAddress =
              (case config ''reply_to_email_address'' of
                 None \<Rightarrow> None
               | Some v \<Rightarrow> if v \<noteq> '''' then Some v else None),
            SourceArn =
              (case config ''source_arn'' of
                 None \<Rightarrow> None
               | Some v \<Rightarrow> if v \<noteq> '''' then Some v else None)\<rparr>))"

text \<open>
  Lines 180 to 197 of Create and lines 328 to 345 of Update. The assertion
  \<^verbatim>\<open>config["sns_caller_arn"].(string)\<close> has no second result, so it panics where the
  map has no such key.
\<close>

definition expandSmsConfiguration ::
  "elem list \<Rightarrow> failure + SmsConfigurationType option" where
  "expandSmsConfiguration configs =
     (case configs of
        [] \<Rightarrow> Inl (Panicked IndexOutOfRange)
      | ElemNil # _ \<Rightarrow> Inl (Returned (ErrorsNew ''sms_configuration is <nil>''))
      | ElemMap None # _ \<Rightarrow> Inr None
      | ElemMap (Some config) # _ \<Rightarrow>
          (case config ''sns_caller_arn'' of
             None \<Rightarrow> Inl (Panicked InterfaceConversion)
           | Some arn \<Rightarrow>
               Inr (Some \<lparr>
                 SnsCallerArn = Some arn,
                 ExternalId =
                   (case config ''external_id'' of
                      None \<Rightarrow> None
                    | Some v \<Rightarrow> if v \<noteq> '''' then Some v else None)\<rparr>)))"

subsection \<open>Read\<close>

text \<open>Line 232: the error is an \<^verbatim>\<open>awserr.Error\<close> with the code of a missing resource.\<close>

definition isResourceNotFound :: "error \<Rightarrow> bool" where
  "isResourceNotFound err =
     (case err of AwsErr code _ \<Rightarrow> code = ''ResourceNotFoundException'' | _ \<Rightarrow> False)"

text \<open>
  Lines 240 to 260: each of the seven fields is written behind a test that the field of
  the response is not nil. The result of these \<^verbatim>\<open>d.Set\<close> calls is not looked at.
\<close>

definition readScalars :: "helpers \<Rightarrow> UserPoolType \<Rightarrow> ResourceData \<Rightarrow> ResourceData" where
  "readScalars h pool d =
     (let d = (case p_AliasAttributes pool of
                 None \<Rightarrow> d
               | Some v \<Rightarrow> Set_value alias_attributes_update (flattenStringList h v) d);
          d = (case p_AutoVerifiedAttributes pool of
                 None \<Rightarrow> d
               | Some v \<Rightarrow> Set_value auto_verified_attributes_update (flattenStringList h v) d);
          d = (case p_EmailVerificationSubject pool of
                 None \<Rightarrow> d
               | Some v \<Rightarrow> Set_value email_verification_subject_update v d);
          d = (case p_EmailVerificationMessage pool of
                 None \<Rightarrow> d
               | Some v \<Rightarrow> Set_value email_verification_message_update v d);
          d = (case p_MfaConfiguration pool of
                 None \<Rightarrow> d
               | Some v \<Rightarrow> Set_value mfa_configuration_update v d);
          d = (case p_SmsVerificationMessage pool of
                 None \<Rightarrow> d
               | Some v \<Rightarrow> Set_value sms_verification_message_update v d);
          d = (case p_SmsAuthenticationMessage pool of
                 None \<Rightarrow> d
               | Some v \<Rightarrow> Set_value sms_authentication_message_update v d)
      in d)"

text \<open>
  The keys of the two blocks (lines 48 to 57 and lines 100 to 109 of the schema).
\<close>

definition emailConfigurationKeys :: "string list" where
  "emailConfigurationKeys = [''reply_to_email_address'', ''source_arn'']"

definition smsConfigurationKeys :: "string list" where
  "smsConfigurationKeys = [''external_id'', ''sns_caller_arn'']"

text \<open>
  A block list that \<^verbatim>\<open>d.Set\<close> has taken, as \<^verbatim>\<open>d.Get\<close> reads it afterwards: one
  element for every map of the flattening, and an element is a map with every key of
  the block's schema, the empty string for a key that the flattened map does not set.
\<close>

definition blockList :: "string list \<Rightarrow> (string \<rightharpoonup> string) list \<Rightarrow> elem list" where
  "blockList keys ms =
     map (\<lambda>m. ElemMap (Some (\<lambda>k. if k \<in> set keys
                                   then Some (case m k of None \<Rightarrow> '''' | Some v \<Rightarrow> v)
                                   else None))) ms"

text \<open>
  Lines 262 to 272: the two blocks and the tags are written with no test of the
  response; an error of \<^verbatim>\<open>d.Set\<close> for a block is returned, wrapped. The argument of
  a \<^verbatim>\<open>d.Set\<close> is computed before the call, so a helper that panics ends Read there.
\<close>

definition readBlocks ::
  "helpers \<Rightarrow> UserPoolType \<Rightarrow> ResourceData \<Rightarrow> failure option \<times> ResourceData" where
  "readBlocks h pool d =
     (case flattenCognitoUserPoolEmailConfiguration h (p_EmailConfiguration pool) of
        Panics \<Rightarrow> (Some (Panicked HelperPanic), d)
      | Returns email \<Rightarrow>
     (case SetError h ''email_configuration'' email of
        Some err \<Rightarrow>
          (Some (Returned (Wrapf ''Failed setting email_configuration: {{err}}'' err)), d)
      | None \<Rightarrow>
     (let d = Set_value email_configuration_update (blockList emailConfigurationKeys email) d in
      case flattenCognitoUserPoolSmsConfiguration h (p_SmsConfiguration pool) of
        Panics \<Rightarrow> (Some (Panicked HelperPanic), d)
      | Returns sms \<Rightarrow>
     (case SetError h ''sms_configuration'' sms of
        Some err \<Rightarrow>
          (Some (Returned (Wrapf ''Failed setting sms_configuration: {{err}}'' err)), d)
      | None \<Rightarrow>
     (let d = Set_value sms_configuration_update (blockList smsConfigurationKeys sms) d in
      case tagsToMapGeneric h (p_UserPoolTags pool) of
        Panics \<Rightarrow> (Some (Panicked HelperPanic), d)
      | Returns t \<Rightarrow> (None, Set_value tags_update t d))))))"

text \<open>
  \<^verbatim>\<open>resourceAwsCognitoUserPoolRead\<close> (lines 220 to 273). The result is the returned
  error or the panic (\<open>None\<close> for a nil error), the resource data and the calls made.
\<close>

definition resourceAwsCognitoUserPoolRead ::
  "helpers \<Rightarrow> cognitoidpconn \<Rightarrow> ResourceData \<Rightarrow> failure option \<times> ResourceData \<times> call list" where
  "resourceAwsCognitoUserPoolRead h conn d =
     (let params = \<lparr>r_UserPoolId = Some (rd_id d)\<rparr> in
      case DescribeUserPool conn params of
        Inl err \<Rightarrow>
          if isResourceNotFound err
          then (None, SetId '''' d, [DescribeUserPoolCall params])
          else (Some (Returned err), d, [DescribeUserPoolCall params])
      | Inr None \<Rightarrow> (Some (Panicked NilDereference), d, [DescribeUserPoolCall params])
      | Inr (Some pool) \<Rightarrow>
          (let (r, d) = readBlocks h pool (readScalars h pool d)
           in (r, d, [DescribeUserPoolCall params])))"

subsection \<open>Create\<close>

text \<open>
  Lines 128 to 206: the request of Create. A key enters the request where
  \<^verbatim>\<open>d.GetOk\<close> says it is set to a value other than the zero value.
\<close>

definition createParams :: "helpers \<Rightarrow> ResourceData \<Rightarrow> failure + CreateUserPoolInput" where
  "createParams h d =
     (case (if snd (GetOk email_configuration [] d)
            then expandEmailConfiguration (fst (GetOk email_configuration [] d))
            else Inr None) of
        Inl f \<Rightarrow> Inl f
      | Inr email \<Rightarrow>
     (case (if snd (GetOk sms_configuration [] d)
            then expandSmsConfiguration (fst (GetOk sms_configuration [] d))
            else Inr None) of
        Inl f \<Rightarrow> Inl f
      | Inr sms \<Rightarrow>
          Inr \<lparr>
            c_PoolName = Some (Get name d),
            c_AliasAttributes =
              (if snd (GetOk alias_attributes [] d)
               then expandStringList h (fst (GetOk alias_attributes [] d)) else None),
            c_AutoVerifiedAttributes =
              (if snd (GetOk auto_verified_attributes [] d)
               then expandStringList h (fst (GetOk auto_verified_attributes [] d)) else None),
            c_EmailConfiguration = email,
            c_EmailVerificationSubject =
              (if snd (GetOk email_verification_subject '''' d)
               then Some (fst (GetOk email_verification_subject '''' d)) else None),
            c_EmailVerificationMessage =
              (if snd (GetOk email_verification_message '''' d)
               then Some (fst (GetOk email_verification_message '''' d)) else None),
            c_MfaConfiguration =
              (if snd (GetOk mfa_configuration '''' d)
               then Some (fst (GetOk mfa_configuration '''' d)) else None),
            c_SmsAuthenticationMessage =
              (if snd (GetOk sms_authentication_message '''' d)
               then Some (fst (GetOk sms_authentication_message '''' d)) else None),
            c_SmsConfiguration = sms,
            c_SmsVerificationMessage =
              (if snd (GetOk sms_verification_message '''' d)
               then Some (fst (GetOk sms_verification_message '''' d)) else None),
            c_UserPoolTags =
              (if snd (GetOk tags Map.empty d)
               then tagsFromMapGeneric h (fst (GetOk tags Map.empty d)) else None)\<rparr>))"

text \<open>
  \<^verbatim>\<open>resourceAwsCognitoUserPoolCreate\<close> (lines 125 to 218): the request, the call, the
  identifier of the response (\<^verbatim>\<open>*resp.UserPool.Id\<close>), then Read.
\<close>

definition resourceAwsCognitoUserPoolCreate ::
  "helpers \<Rightarrow> cognitoidpconn \<Rightarrow> ResourceData \<Rightarrow> failure option \<times> ResourceData \<times> call list" where
  "resourceAwsCognitoUserPoolCreate h conn d =
     (case createParams h d of
        Inl f \<Rightarrow> (Some f, d, [])
      | Inr params \<Rightarrow>
          (case CreateUserPool conn params of
             Inl err \<Rightarrow>
               (Some (Returned (Wrapf ''Error creating Cognito User Pool: {{err}}'' err)), d,
                [CreateUserPoolCall params])
           | Inr None \<Rightarrow> (Some (Panicked NilDereference), d, [CreateUserPoolCall params])
           | Inr (Some pool) \<Rightarrow>
               (case p_Id pool of
                  None \<Rightarrow> (Some (Panicked NilDereference), d, [CreateUserPoolCall params])
                | Some i \<Rightarrow>
                    (let (r, d, calls) = resourceAwsCognitoUserPoolRead h conn (SetId i d)
                     in (r, d, CreateUserPoolCall params # calls)))))"

subsection \<open>Update\<close>

text \<open>
  Lines 278 to 354: the request of Update. A key enters the request where
  \<^verbatim>\<open>d.HasChange\<close> says its value differs from the prior state. No line reads
  \<^verbatim>\<open>alias_attributes\<close> (line 282: \<^verbatim>\<open>TODO - Handle update of AliasAttributes\<close>).
\<close>

definition updateParams :: "helpers \<Rightarrow> ResourceData \<Rightarrow> failure + UpdateUserPoolInput" where
  "updateParams h d =
     (case (if HasChange email_configuration d
            then expandEmailConfiguration (Get email_configuration d)
            else Inr None) of
        Inl f \<Rightarrow> Inl f
      | Inr email \<Rightarrow>
     (case (if HasChange sms_configuration d
            then expandSmsConfiguration (Get sms_configuration d)
            else Inr None) of
        Inl f \<Rightarrow> Inl f
      | Inr sms \<Rightarrow>
          Inr \<lparr>
            u_UserPoolId = Some (rd_id d),
            u_AutoVerifiedAttributes =
              (if HasChange auto_verified_attributes d
               then expandStringList h (Get auto_verified_attributes d) else None),
            u_EmailConfiguration = email,
            u_EmailVerificationSubject =
              (if HasChange email_verification_subject d
               then Some (Get email_verification_subject d) else None),
            u_EmailVerificationMessage =
              (if HasChange email_verification_message d
               then Some (Get email_verification_message d) else None),
            u_MfaConfiguration =
              (if HasChange mfa_configuration d
               then Some (Get mfa_configuration d) else None),
            u_SmsAuthenticationMessage =
              (if HasChange sms_authentication_message d
               then Some (Get sms_authentication_message d) else None),
            u_SmsConfiguration = sms,
            u_SmsVerificationMessage =
              (if HasChange sms_verification_message d
               then Some (Get sms_verification_message d) else None),
            u_UserPoolTags =
              (if HasChange tags d
               then tagsFromMapGeneric h (Get tags d) else None)\<rparr>))"

text \<open>\<^verbatim>\<open>resourceAwsCognitoUserPoolUpdate\<close> (lines 275 to 364).\<close>

definition resourceAwsCognitoUserPoolUpdate ::
  "helpers \<Rightarrow> cognitoidpconn \<Rightarrow> ResourceData \<Rightarrow> failure option \<times> ResourceData \<times> call list" where
  "resourceAwsCognitoUserPoolUpdate h conn d =
     (case updateParams h d of
        Inl f \<Rightarrow> (Some f, d, [])
      | Inr params \<Rightarrow>
          (case UpdateUserPool conn params of
             Inl err \<Rightarrow>
               (Some (Returned (Wrapf ''Error updating Cognito User pool: {{err}}'' err)), d,
                [UpdateUserPoolCall params])
           | Inr _ \<Rightarrow>
               (let (r, d, calls) = resourceAwsCognitoUserPoolRead h conn d
                in (r, d, UpdateUserPoolCall params # calls))))"

subsection \<open>Delete\<close>

text \<open>\<^verbatim>\<open>resourceAwsCognitoUserPoolDelete\<close> (lines 366 to 382).\<close>

definition resourceAwsCognitoUserPoolDelete ::
  "cognitoidpconn \<Rightarrow> ResourceData \<Rightarrow> failure option \<times> ResourceData \<times> call list" where
  "resourceAwsCognitoUserPoolDelete conn d =
     (let params = \<lparr>x_UserPoolId = Some (rd_id d)\<rparr> in
      case DeleteUserPool conn params of
        Inl err \<Rightarrow>
          (Some (Returned (Wrapf ''Error deleting user pool: {{err}}'' err)), d,
           [DeleteUserPoolCall params])
      | Inr _ \<Rightarrow> (None, d, [DeleteUserPoolCall params]))"

subsection \<open>The configuration and the defaults of the schema\<close>

text \<open>
  A configuration as the user writes it: \<^verbatim>\<open>name\<close> is \<^verbatim>\<open>Required\<close>, every other key
  is \<^verbatim>\<open>Optional\<close> and \<open>None\<close> where the configuration omits it.
\<close>

record UserPoolConfig =
  cfg_alias_attributes :: "string list option"
  cfg_auto_verified_attributes :: "string list option"
  cfg_email_configuration :: "elem list option"
  cfg_email_verification_subject :: "string option"
  cfg_email_verification_message :: "string option"
  cfg_mfa_configuration :: "string option"
  cfg_name :: string
  cfg_sms_authentication_message :: "string option"
  cfg_sms_configuration :: "elem list option"
  cfg_sms_verification_message :: "string option"
  cfg_tags :: "(string \<rightharpoonup> string) option"

text \<open>The constant of the service's SDK that line 77 gives as the default.\<close>

definition UserPoolMfaTypeOff :: string where
  "UserPoolMfaTypeOff = ''OFF''"

text \<open>
  The values that \<^verbatim>\<open>d.Get\<close> reads for a configuration: the value of the configuration
  where the key is given; otherwise the \<^verbatim>\<open>Default\<close> of the schema, which only
  \<^verbatim>\<open>mfa_configuration\<close> has (lines 74 to 79), or the zero value of the type.
\<close>

definition configValues :: "UserPoolConfig \<Rightarrow> schema_values" where
  "configValues c = \<lparr>
     alias_attributes = (case cfg_alias_attributes c of None \<Rightarrow> [] | Some v \<Rightarrow> v),
     auto_verified_attributes =
       (case cfg_auto_verified_attributes c of None \<Rightarrow> [] | Some v \<Rightarrow> v),
     email_configuration = (case cfg_email_configuration c of None \<Rightarrow> [] | Some v \<Rightarrow> v),
     email_verification_subject =
       (case cfg_email_verification_subject c of None \<Rightarrow> '''' | Some v \<Rightarrow> v),
     email_verification_message =
       (case cfg_email_verification_message c of None \<Rightarrow> '''' | Some v \<Rightarrow> v),
     mfa_configuration =
       (case cfg_mfa_configuration c of None \<Rightarrow> UserPoolMfaTypeOff | Some v \<Rightarrow> v),
     name = cfg_name c,
     sms_authentication_message =
       (case cfg_sms_authentication_message c of None \<Rightarrow> '''' | Some v \<Rightarrow> v),
     sms_configuration = (case cfg_sms_configuration c of None \<Rightarrow> [] | Some v \<Rightarrow> v),
     sms_verification_message =
       (case cfg_sms_verification_message c of None \<Rightarrow> '''' | Some v \<Rightarrow> v),
     tags = (case cfg_tags c of None \<Rightarrow> Map.empty | Some v \<Rightarrow> v)\<rparr>"

subsection \<open>Notions of the specification\<close>

text \<open>
  A block that is present without an addressable element: the list has a first element
  and that element is not a map.
\<close>

definition nilBlock :: "elem list \<Rightarrow> bool" where
  "nilBlock configs = (case configs of ElemNil # _ \<Rightarrow> True | _ \<Rightarrow> False)"

text \<open>The two errors of lines 145, 184, 293 and 332: a malformed block.\<close>

definition ConfigurationShapeError :: "failure \<Rightarrow> bool" where
  "ConfigurationShapeError f =
     (f = Returned (ErrorsNew ''email_configuration is <nil>'') \<or>
      f = Returned (ErrorsNew ''sms_configuration is <nil>''))"

text \<open>The request of Update that carries the identifier and nothing else.\<close>

definition identifierOnly :: "string \<Rightarrow> UpdateUserPoolInput" where
  "identifierOnly i = \<lparr>
     u_UserPoolId = Some i,
     u_AutoVerifiedAttributes = None,
     u_EmailConfiguration = None,
     u_EmailVerificationSubject = None,
     u_EmailVerificationMessage = None,
     u_MfaConfiguration = None,
     u_SmsAuthenticationMessage = None,
     u_SmsConfiguration = None,
     u_SmsVerificationMessage = None,
     u_UserPoolTags = None\<rparr>"

subsection \<open>Concrete inputs\<close>

text \<open>
  Inputs at which the theorems below are evaluated: helpers that copy their argument
  and never panic, with a \<^verbatim>\<open>d.Set\<close> that never fails; a connection whose every call fails with a given
  error; a connection whose every call succeeds and answers with a given user pool.
\<close>

definition sample_helpers :: helpers where
  "sample_helpers = \<lparr>
     expandStringList = Some,
     flattenStringList = (\<lambda>xs. xs),
     tagsFromMapGeneric = Some,
     tagsToMapGeneric = (\<lambda>t. case t of None \<Rightarrow> Returns Map.empty | Some m \<Rightarrow> Returns m),
     flattenCognitoUserPoolEmailConfiguration =
       (\<lambda>c. case c of
          None \<Rightarrow> Returns []
        | Some e \<Rightarrow>
            Returns
              [\<lambda>k. if k = ''reply_to_email_address'' then ReplyToEmailAddress e
                   else if k = ''source_arn'' then SourceArn e else None]),
     flattenCognitoUserPoolSmsConfiguration =
       (\<lambda>c. case c of
          None \<Rightarrow> Returns []
        | Some s \<Rightarrow>
            Returns
              [\<lambda>k. if k = ''external_id'' then ExternalId s
                   else if k = ''sns_caller_arn'' then SnsCallerArn s else None]),
     SetError = (\<lambda>_ _. None)\<rparr>"

definition failing_conn :: "error \<Rightarrow> cognitoidpconn" where
  "failing_conn e = \<lparr>
     CreateUserPool = (\<lambda>_. Inl e),
     DescribeUserPool = (\<lambda>_. Inl e),
     UpdateUserPool = (\<lambda>_. Inl e),
     DeleteUserPool = (\<lambda>_. Inl e)\<rparr>"

definition serving_conn :: "UserPoolType \<Rightarrow> cognitoidpconn" where
  "serving_conn pool = \<lparr>
     CreateUserPool = (\<lambda>_. Inr (Some pool)),
     DescribeUserPool = (\<lambda>_. Inr (Some pool)),
     UpdateUserPool = (\<lambda>_. Inr ()),
     DeleteUserPool = (\<lambda>_. Inr ())\<rparr>"

text \<open>The zero value of every key, and a user pool with an identifier and nil fields.\<close>

definition zero_values :: schema_values where
  "zero_values = \<lparr>
     alias_attributes = [],
     auto_verified_attributes = [],
     email_configuration = [],
     email_verification_subject = '''',
     email_verification_message = '''',
     mfa_configuration = '''',
     name = '''',
     sms_authentication_message = '''',
     sms_configuration = [],
     sms_verification_message = '''',
     tags = Map.empty\<rparr>"

definition bare_pool :: UserPoolType where
  "bare_pool = \<lparr>
     p_Id = Some ''us-east-1_ABC123'',
     p_AliasAttributes = None,
     p_AutoVerifiedAttributes = None,
     p_EmailConfiguration = None,
     p_EmailVerificationSubject = None,
     p_EmailVerificationMessage = None,
     p_MfaConfiguration = None,
     p_SmsAuthenticationMessage = None,
     p_SmsConfiguration = None,
     p_SmsVerificationMessage = None,
     p_UserPoolTags = None\<rparr>"

text \<open>A configuration that gives the name only.\<close>

definition name_only :: "string \<Rightarrow> UserPoolConfig" where
  "name_only n = \<lparr>
     cfg_alias_attributes = None,
     cfg_auto_verified_attributes = None,
     cfg_email_configuration = None,
     cfg_email_verification_subject = None,
     cfg_email_verification_message = None,
     cfg_mfa_configuration = None,
     cfg_name = n,
     cfg_sms_authentication_message = None,
     cfg_sms_configuration = None,
     cfg_sms_verification_message = None,
     cfg_tags = None\<rparr>"

text \<open>
  The resource data that Create receives for a configuration: no identifier yet, no
  prior state, and the values of the configuration.
\<close>

definition newResourceData :: "UserPoolConfig \<Rightarrow> ResourceData" where
  "newResourceData c = \<lparr>rd_id = '''', rd_old = zero_values, rd_new = configValues c\<rparr>"

text \<open>
  The resource data of a user pool that exists, with the values of its prior state and
  its current values; and the values of a configuration that names the pool and gives
  nothing else.
\<close>

definition stored :: "schema_values \<Rightarrow> schema_values \<Rightarrow> ResourceData" where
  "stored old new = \<lparr>rd_id = ''us-east-1_ABC123'', rd_old = old, rd_new = new\<rparr>"

definition pool1 :: schema_values where
  "pool1 = configValues (name_only ''pool1'')"

text \<open>
  A user pool whose auto-verified attributes, e-mail block, MFA mode and tags change,
  and the update request that carries these four and the identifier.
\<close>

definition several_changes :: ResourceData where
  "several_changes = stored pool1
     (pool1\<lparr>auto_verified_attributes := [''email''],
            email_configuration := [ElemMap (Some [''source_arn'' \<mapsto> ''arn:aws:ses:x''])],
            mfa_configuration := ''ON'',
            tags := [''env'' \<mapsto> ''test'']\<rparr>)"

definition several_changes_request :: UpdateUserPoolInput where
  "several_changes_request = \<lparr>
     u_UserPoolId = Some ''us-east-1_ABC123'',
     u_AutoVerifiedAttributes = Some [''email''],
     u_EmailConfiguration =
       Some \<lparr>ReplyToEmailAddress = None, SourceArn = Some ''arn:aws:ses:x''\<rparr>,
     u_EmailVerificationSubject = None,
     u_EmailVerificationMessage = None,
     u_MfaConfiguration = Some ''ON'',
     u_SmsAuthenticationMessage = None,
     u_SmsConfiguration = None,
     u_SmsVerificationMessage = None,
     u_UserPoolTags = Some [''env'' \<mapsto> ''test'']\<rparr>"

text \<open>
  A user pool known with an SMS block and a tag, and a response that has an e-mail
  block with a source ARN, another tag and no SMS block.
\<close>

definition known_with_sms :: ResourceData where
  "known_with_sms = stored pool1
     (pool1\<lparr>sms_configuration := [ElemMap (Some [''sns_caller_arn'' \<mapsto> ''arn:aws:iam:r''])],
            tags := [''env'' \<mapsto> ''test'']\<rparr>)"

definition pool_with_email :: UserPoolType where
  "pool_with_email = bare_pool
     \<lparr>p_EmailConfiguration :=
        Some \<lparr>ReplyToEmailAddress = None, SourceArn = Some ''arn:aws:ses:x''\<rparr>,
      p_UserPoolTags := Some [''env'' \<mapsto> ''prod'']\<rparr>"

section \<open>Properties\<close>

subsection \<open>The two block expansions\<close>

lemma nilBlock_iff: "nilBlock configs \<longleftrightarrow> (\<exists>cs. configs = ElemNil # cs)"
  by (auto simp add: nilBlock_def split: list.splits elem.splits)

lemma expandEmailConfiguration_nil:
  "expandEmailConfiguration (ElemNil # cs) =
     Inl (Returned (ErrorsNew ''email_configuration is <nil>''))"
  by (simp add: expandEmailConfiguration_def)

lemma expandSmsConfiguration_nil:
  "expandSmsConfiguration (ElemNil # cs) =
     Inl (Returned (ErrorsNew ''sms_configuration is <nil>''))"
  by (simp add: expandSmsConfiguration_def)

lemma expandEmailConfiguration_index_panic:
  "expandEmailConfiguration configs = Inl (Panicked IndexOutOfRange) \<longleftrightarrow> configs = []"
  by (simp add: expandEmailConfiguration_def split: list.split elem.split option.split)

lemma expandSmsConfiguration_index_panic:
  "expandSmsConfiguration configs = Inl (Panicked IndexOutOfRange) \<longleftrightarrow> configs = []"
  by (simp add: expandSmsConfiguration_def split: list.split elem.split option.split)

lemma expandEmailConfiguration_passes:
  assumes "configs \<noteq> []" and "\<not> nilBlock configs"
  shows "\<exists>e. expandEmailConfiguration configs = Inr e"
proof (cases configs)
  case Nil
  with assms show ?thesis by simp
next
  case (Cons c cs)
  with assms(2) show ?thesis
    by (cases c) (auto simp add: expandEmailConfiguration_def nilBlock_def split: option.splits)
qed

lemma expandEmailConfiguration_Inr:
  assumes "expandEmailConfiguration configs = Inr r"
  shows "r \<noteq> None \<longleftrightarrow> (\<exists>m cs. configs = ElemMap (Some m) # cs)"
  using assms
  by (auto simp add: expandEmailConfiguration_def split: list.splits elem.splits option.splits)

lemma expandSmsConfiguration_Inr:
  assumes "expandSmsConfiguration configs = Inr r"
  shows "r \<noteq> None \<longleftrightarrow> (\<exists>m cs. configs = ElemMap (Some m) # cs)"
  using assms
  by (auto simp add: expandSmsConfiguration_def split: list.splits elem.splits option.splits)

subsection \<open>The request of Create\<close>

text \<open>The request fails where the expansion of a block fails, the e-mail block first.\<close>

lemma createParams_email_fails:
  assumes "(if snd (GetOk email_configuration [] d)
            then expandEmailConfiguration (fst (GetOk email_configuration [] d))
            else Inr None) = Inl f"
  shows "createParams h d = Inl f"
  by (simp only: createParams_def assms sum.case)

lemma createParams_sms_fails:
  assumes "(if snd (GetOk email_configuration [] d)
            then expandEmailConfiguration (fst (GetOk email_configuration [] d))
            else Inr None) = Inr e"
    and "(if snd (GetOk sms_configuration [] d)
            then expandSmsConfiguration (fst (GetOk sms_configuration [] d))
            else Inr None) = Inl f"
  shows "createParams h d = Inl f"
  by (simp only: createParams_def assms sum.case)

lemma createParams_succeeds:
  assumes "Get email_configuration d = []" and "Get sms_configuration d = []"
  shows "\<exists>p. createParams h d = Inr p"
proof -
  have e: "(if snd (GetOk email_configuration [] d)
      then expandEmailConfiguration (fst (GetOk email_configuration [] d)) else Inr None) =
      Inr None"
    by (simp add: GetOk_def assms)
  have s: "(if snd (GetOk sms_configuration [] d)
      then expandSmsConfiguration (fst (GetOk sms_configuration [] d)) else Inr None) =
      Inr None"
    by (simp add: GetOk_def assms)
  show ?thesis
    by (simp only: createParams_def e s sum.case) blast
qed

lemma createParams_Inl:
  assumes "createParams h d = Inl f"
  shows "(Get email_configuration d \<noteq> [] \<and>
            expandEmailConfiguration (Get email_configuration d) = Inl f) \<or>
         (Get sms_configuration d \<noteq> [] \<and>
            expandSmsConfiguration (Get sms_configuration d) = Inl f)"
proof -
  let ?email = "if snd (GetOk email_configuration [] d)
      then expandEmailConfiguration (fst (GetOk email_configuration [] d)) else Inr None"
  let ?sms = "if snd (GetOk sms_configuration [] d)
      then expandSmsConfiguration (fst (GetOk sms_configuration [] d)) else Inr None"
  show ?thesis
  proof (cases ?email)
    case (Inl g)
    then have "createParams h d = Inl g"
      by (rule createParams_email_fails)
    with assms have "g = f" by simp
    with Inl show ?thesis
      by (simp add: GetOk_def split: if_splits)
  next
    case e: (Inr e)
    show ?thesis
    proof (cases ?sms)
      case (Inl g)
      with e have "createParams h d = Inl g"
        by (rule createParams_sms_fails)
      with assms have "g = f" by simp
      with Inl show ?thesis
        by (simp add: GetOk_def split: if_splits)
    next
      case s: (Inr s)
      have "\<exists>p. createParams h d = Inr p"
        by (simp only: createParams_def e s sum.case) blast
      with assms show ?thesis by auto
    qed
  qed
qed

text \<open>The name and the MFA mode of a request that Create has built.\<close>

lemma createParams_Inr:
  assumes "createParams h d = Inr p"
  shows "c_PoolName p = Some (Get name d)"
    and "c_MfaConfiguration p =
           (if snd (GetOk mfa_configuration '''' d)
            then Some (fst (GetOk mfa_configuration '''' d)) else None)"
proof -
  let ?email = "if snd (GetOk email_configuration [] d)
      then expandEmailConfiguration (fst (GetOk email_configuration [] d)) else Inr None"
  let ?sms = "if snd (GetOk sms_configuration [] d)
      then expandSmsConfiguration (fst (GetOk sms_configuration [] d)) else Inr None"
  obtain e where e: "?email = Inr e"
  proof (cases ?email)
    case (Inl f)
    then have "createParams h d = Inl f"
      by (rule createParams_email_fails)
    with assms show ?thesis by simp
  qed
  obtain s where s: "?sms = Inr s"
  proof (cases ?sms)
    case (Inl f)
    with e have "createParams h d = Inl f"
      by (rule createParams_sms_fails)
    with assms show ?thesis by simp
  qed
  have "\<exists>a v sub msg am vm t. createParams h d = Inr \<lparr>
       c_PoolName = Some (Get name d),
       c_AliasAttributes = a,
       c_AutoVerifiedAttributes = v,
       c_EmailConfiguration = e,
       c_EmailVerificationSubject = sub,
       c_EmailVerificationMessage = msg,
       c_MfaConfiguration =
         (if snd (GetOk mfa_configuration '''' d)
          then Some (fst (GetOk mfa_configuration '''' d)) else None),
       c_SmsAuthenticationMessage = am,
       c_SmsConfiguration = s,
       c_SmsVerificationMessage = vm,
       c_UserPoolTags = t\<rparr>"
    by (simp only: createParams_def e s sum.case) blast
  then obtain a v sub msg am vm t where "Inr p = Inr \<lparr>
       c_PoolName = Some (Get name d),
       c_AliasAttributes = a,
       c_AutoVerifiedAttributes = v,
       c_EmailConfiguration = e,
       c_EmailVerificationSubject = sub,
       c_EmailVerificationMessage = msg,
       c_MfaConfiguration =
         (if snd (GetOk mfa_configuration '''' d)
          then Some (fst (GetOk mfa_configuration '''' d)) else None),
       c_SmsAuthenticationMessage = am,
       c_SmsConfiguration = s,
       c_SmsVerificationMessage = vm,
       c_UserPoolTags = t\<rparr>"
    unfolding assms by blast
  then have p: "p = \<lparr>
       c_PoolName = Some (Get name d),
       c_AliasAttributes = a,
       c_AutoVerifiedAttributes = v,
       c_EmailConfiguration = e,
       c_EmailVerificationSubject = sub,
       c_EmailVerificationMessage = msg,
       c_MfaConfiguration =
         (if snd (GetOk mfa_configuration '''' d)
          then Some (fst (GetOk mfa_configuration '''' d)) else None),
       c_SmsAuthenticationMessage = am,
       c_SmsConfiguration = s,
       c_SmsVerificationMessage = vm,
       c_UserPoolTags = t\<rparr>"
    by (rule Inr_inject)
  show "c_PoolName p = Some (Get name d)"
    by (simp add: p)
  show "c_MfaConfiguration p =
           (if snd (GetOk mfa_configuration '''' d)
            then Some (fst (GetOk mfa_configuration '''' d)) else None)"
    by (simp add: p)
qed

subsection \<open>The request of Update\<close>

lemma updateParams_email_fails:
  assumes "(if HasChange email_configuration d
            then expandEmailConfiguration (Get email_configuration d)
            else Inr None) = Inl f"
  shows "updateParams h d = Inl f"
  by (simp only: updateParams_def assms sum.case)

lemma updateParams_sms_fails:
  assumes "(if HasChange email_configuration d
            then expandEmailConfiguration (Get email_configuration d)
            else Inr None) = Inr e"
    and "(if HasChange sms_configuration d
            then expandSmsConfiguration (Get sms_configuration d)
            else Inr None) = Inl f"
  shows "updateParams h d = Inl f"
  by (simp only: updateParams_def assms sum.case)

text \<open>Every field of a request that Update has built.\<close>

lemma updateParams_Inr:
  assumes "updateParams h d = Inr p"
  shows "u_UserPoolId p = Some (rd_id d)"
    and "u_AutoVerifiedAttributes p =
           (if HasChange auto_verified_attributes d
            then expandStringList h (Get auto_verified_attributes d) else None)"
    and "(if HasChange email_configuration d
          then expandEmailConfiguration (Get email_configuration d) else Inr None) =
         Inr (u_EmailConfiguration p)"
    and "u_EmailVerificationSubject p =
           (if HasChange email_verification_subject d
            then Some (Get email_verification_subject d) else None)"
    and "u_EmailVerificationMessage p =
           (if HasChange email_verification_message d
            then Some (Get email_verification_message d) else None)"
    and "u_MfaConfiguration p =
           (if HasChange mfa_configuration d
            then Some (Get mfa_configuration d) else None)"
    and "u_SmsAuthenticationMessage p =
           (if HasChange sms_authentication_message d
            then Some (Get sms_authentication_message d) else None)"
    and "(if HasChange sms_configuration d
          then expandSmsConfiguration (Get sms_configuration d) else Inr None) =
         Inr (u_SmsConfiguration p)"
    and "u_SmsVerificationMessage p =
           (if HasChange sms_verification_message d
            then Some (Get sms_verification_message d) else None)"
    and "u_UserPoolTags p =
           (if HasChange tags d then tagsFromMapGeneric h (Get tags d) else None)"
proof -
  let ?email = "if HasChange email_configuration d
      then expandEmailConfiguration (Get email_configuration d) else Inr None"
  let ?sms = "if HasChange sms_configuration d
      then expandSmsConfiguration (Get sms_configuration d) else Inr None"
  obtain e where e: "?email = Inr e"
  proof (cases ?email)
    case (Inl f)
    then have "updateParams h d = Inl f"
      by (rule updateParams_email_fails)
    with assms show ?thesis by simp
  qed
  obtain s where s: "?sms = Inr s"
  proof (cases ?sms)
    case (Inl f)
    with e have "updateParams h d = Inl f"
      by (rule updateParams_sms_fails)
    with assms show ?thesis by simp
  qed
  let ?r = "\<lparr>
       u_UserPoolId = Some (rd_id d),
       u_AutoVerifiedAttributes =
         (if HasChange auto_verified_attributes d
          then expandStringList h (Get auto_verified_attributes d) else None),
       u_EmailConfiguration = e,
       u_EmailVerificationSubject =
         (if HasChange email_verification_subject d
          then Some (Get email_verification_subject d) else None),
       u_EmailVerificationMessage =
         (if HasChange email_verification_message d
          then Some (Get email_verification_message d) else None),
       u_MfaConfiguration =
         (if HasChange mfa_configuration d
          then Some (Get mfa_configuration d) else None),
       u_SmsAuthenticationMessage =
         (if HasChange sms_authentication_message d
          then Some (Get sms_authentication_message d) else None),
       u_SmsConfiguration = s,
       u_SmsVerificationMessage =
         (if HasChange sms_verification_message d
          then Some (Get sms_verification_message d) else None),
       u_UserPoolTags =
         (if HasChange tags d
          then tagsFromMapGeneric h (Get tags d) else None)\<rparr>"
  have r: "updateParams h d = Inr ?r"
    by (simp only: updateParams_def e s sum.case)
  from r [unfolded assms] have p: "p = ?r"
    by (rule Inr_inject)
  show "u_UserPoolId p = Some (rd_id d)"
    by (simp add: p)
  show "u_AutoVerifiedAttributes p =
           (if HasChange auto_verified_attributes d
            then expandStringList h (Get auto_verified_attributes d) else None)"
    by (simp add: p)
  show "?email = Inr (u_EmailConfiguration p)"
    by (simp only: e p UpdateUserPoolInput.simps)
  show "u_EmailVerificationSubject p =
           (if HasChange email_verification_subject d
            then Some (Get email_verification_subject d) else None)"
    by (simp add: p)
  show "u_EmailVerificationMessage p =
           (if HasChange email_verification_message d
            then Some (Get email_verification_message d) else None)"
    by (simp add: p)
  show "u_MfaConfiguration p =
           (if HasChange mfa_configuration d
            then Some (Get mfa_configuration d) else None)"
    by (simp add: p)
  show "u_SmsAuthenticationMessage p =
           (if HasChange sms_authentication_message d
            then Some (Get sms_authentication_message d) else None)"
    by (simp add: p)
  show "?sms = Inr (u_SmsConfiguration p)"
    by (simp only: s p UpdateUserPoolInput.simps)
  show "u_SmsVerificationMessage p =
           (if HasChange sms_verification_message d
            then Some (Get sms_verification_message d) else None)"
    by (simp add: p)
  show "u_UserPoolTags p =
           (if HasChange tags d then tagsFromMapGeneric h (Get tags d) else None)"
    by (simp add: p)
qed

lemma updateParams_unchanged:
  assumes "rd_old d = rd_new d"
  shows "updateParams h d = Inr (identifierOnly (rd_id d))"
  by (simp add: updateParams_def HasChange_def assms identifierOnly_def)

subsection \<open>What Read writes, and the calls of the handlers\<close>

lemma readScalars_values:
  "alias_attributes (rd_new (readScalars h pool d)) =
     (case p_AliasAttributes pool of
        None \<Rightarrow> alias_attributes (rd_new d) | Some v \<Rightarrow> flattenStringList h v)"
  "auto_verified_attributes (rd_new (readScalars h pool d)) =
     (case p_AutoVerifiedAttributes pool of
        None \<Rightarrow> auto_verified_attributes (rd_new d) | Some v \<Rightarrow> flattenStringList h v)"
  "email_verification_subject (rd_new (readScalars h pool d)) =
     (case p_EmailVerificationSubject pool of
        None \<Rightarrow> email_verification_subject (rd_new d) | Some v \<Rightarrow> v)"
  "email_verification_message (rd_new (readScalars h pool d)) =
     (case p_EmailVerificationMessage pool of
        None \<Rightarrow> email_verification_message (rd_new d) | Some v \<Rightarrow> v)"
  "mfa_configuration (rd_new (readScalars h pool d)) =
     (case p_MfaConfiguration pool of
        None \<Rightarrow> mfa_configuration (rd_new d) | Some v \<Rightarrow> v)"
  "sms_verification_message (rd_new (readScalars h pool d)) =
     (case p_SmsVerificationMessage pool of
        None \<Rightarrow> sms_verification_message (rd_new d) | Some v \<Rightarrow> v)"
  "sms_authentication_message (rd_new (readScalars h pool d)) =
     (case p_SmsAuthenticationMessage pool of
        None \<Rightarrow> sms_authentication_message (rd_new d) | Some v \<Rightarrow> v)"
  by (simp_all add: readScalars_def Set_value_def Let_def split: option.split)

lemma readBlocks_frame:
  "alias_attributes (rd_new (snd (readBlocks h pool d))) = alias_attributes (rd_new d)"
  "auto_verified_attributes (rd_new (snd (readBlocks h pool d))) =
     auto_verified_attributes (rd_new d)"
  "email_verification_subject (rd_new (snd (readBlocks h pool d))) =
     email_verification_subject (rd_new d)"
  "email_verification_message (rd_new (snd (readBlocks h pool d))) =
     email_verification_message (rd_new d)"
  "mfa_configuration (rd_new (snd (readBlocks h pool d))) = mfa_configuration (rd_new d)"
  "sms_verification_message (rd_new (snd (readBlocks h pool d))) =
     sms_verification_message (rd_new d)"
  "sms_authentication_message (rd_new (snd (readBlocks h pool d))) =
     sms_authentication_message (rd_new d)"
  by (simp_all add: readBlocks_def Set_value_def Let_def split: option.split outcome.split)

lemma readBlocks_written:
  assumes "flattenCognitoUserPoolEmailConfiguration h (p_EmailConfiguration pool) = Returns email"
    and "flattenCognitoUserPoolSmsConfiguration h (p_SmsConfiguration pool) = Returns sms"
    and "tagsToMapGeneric h (p_UserPoolTags pool) = Returns t"
    and "SetError h ''email_configuration'' email = None"
    and "SetError h ''sms_configuration'' sms = None"
  shows "fst (readBlocks h pool d) = None"
    and "email_configuration (rd_new (snd (readBlocks h pool d))) =
           blockList emailConfigurationKeys email"
    and "sms_configuration (rd_new (snd (readBlocks h pool d))) =
           blockList smsConfigurationKeys sms"
    and "tags (rd_new (snd (readBlocks h pool d))) = t"
  using assms by (simp_all add: readBlocks_def Set_value_def Let_def)

lemma read_served:
  assumes "DescribeUserPool conn \<lparr>r_UserPoolId = Some (rd_id d)\<rparr> = Inr (Some pool)"
  shows "resourceAwsCognitoUserPoolRead h conn d =
           (fst (readBlocks h pool (readScalars h pool d)),
            snd (readBlocks h pool (readScalars h pool d)),
            [DescribeUserPoolCall \<lparr>r_UserPoolId = Some (rd_id d)\<rparr>])"
  using assms by (simp add: resourceAwsCognitoUserPoolRead_def split_beta)

lemma read_calls:
  "snd (snd (resourceAwsCognitoUserPoolRead h conn d)) =
     [DescribeUserPoolCall \<lparr>r_UserPoolId = Some (rd_id d)\<rparr>]"
  by (simp add: resourceAwsCognitoUserPoolRead_def split_beta Let_def
      split: sum.split option.split)

lemma read_no_index_panic:
  "fst (resourceAwsCognitoUserPoolRead h conn d) \<noteq> Some (Panicked IndexOutOfRange)"
  by (simp add: resourceAwsCognitoUserPoolRead_def readBlocks_def split_beta Let_def
      split: sum.split option.split outcome.split)

lemma create_fails_early:
  "createParams h d = Inl f \<Longrightarrow> resourceAwsCognitoUserPoolCreate h conn d = (Some f, d, [])"
  by (simp add: resourceAwsCognitoUserPoolCreate_def)

lemma update_fails_early:
  "updateParams h d = Inl f \<Longrightarrow> resourceAwsCognitoUserPoolUpdate h conn d = (Some f, d, [])"
  by (simp add: resourceAwsCognitoUserPoolUpdate_def)

lemma update_dispatches_params:
  assumes "UpdateUserPoolCall p \<in> set (snd (snd (resourceAwsCognitoUserPoolUpdate h conn d)))"
  shows "updateParams h d = Inr p"
  using assms
  by (auto simp add: resourceAwsCognitoUserPoolUpdate_def split_beta read_calls
      split: sum.splits)

lemma update_calls:
  assumes "updateParams h d = Inr p"
  shows "\<exists>calls. snd (snd (resourceAwsCognitoUserPoolUpdate h conn d)) =
           UpdateUserPoolCall p # calls \<and> (\<forall>q. UpdateUserPoolCall q \<notin> set calls)"
  using assms
  by (auto simp add: resourceAwsCognitoUserPoolUpdate_def split_beta read_calls
      split: sum.splits)

lemma create_dispatches_params:
  assumes "CreateUserPoolCall p \<in> set (snd (snd (resourceAwsCognitoUserPoolCreate h conn d)))"
  shows "createParams h d = Inr p"
  using assms
  by (auto simp add: resourceAwsCognitoUserPoolCreate_def split_beta read_calls
      split: sum.splits option.splits)

lemma create_calls:
  assumes "createParams h d = Inr p"
  shows "\<exists>calls. snd (snd (resourceAwsCognitoUserPoolCreate h conn d)) =
           CreateUserPoolCall p # calls"
  using assms
  by (auto simp add: resourceAwsCognitoUserPoolCreate_def split_beta read_calls
      split: sum.splits option.splits)

lemma create_no_index_panic:
  "fst (resourceAwsCognitoUserPoolCreate h conn d) \<noteq> Some (Panicked IndexOutOfRange)"
proof (cases "createParams h d")
  case (Inl f)
  from createParams_Inl [OF Inl] have "f \<noteq> Panicked IndexOutOfRange"
    by (auto simp add: expandEmailConfiguration_index_panic expandSmsConfiguration_index_panic)
  with Inl show ?thesis
    by (simp add: resourceAwsCognitoUserPoolCreate_def)
next
  case (Inr p)
  then show ?thesis
    using read_no_index_panic
    by (simp add: resourceAwsCognitoUserPoolCreate_def split_beta
        split: sum.split option.split)
qed

subsection \<open>When Update sends its request\<close>

lemma empty_neq_map_upd: "Map.empty \<noteq> m(k \<mapsto> v)"
proof
  assume "Map.empty = m(k \<mapsto> v)"
  then have "Map.empty k = (m(k \<mapsto> v)) k" by (rule arg_cong)
  then show False by simp
qed

lemma expandEmailConfiguration_Inr_iff:
  "(\<exists>e. expandEmailConfiguration configs = Inr e) \<longleftrightarrow> (\<exists>m cs. configs = ElemMap m # cs)"
  by (auto simp add: expandEmailConfiguration_def split: list.splits elem.splits option.splits)

lemma expandSmsConfiguration_Inr_iff:
  "(\<exists>s. expandSmsConfiguration configs = Inr s) \<longleftrightarrow>
     (\<exists>m cs. configs = ElemMap m # cs \<and>
        (case m of None \<Rightarrow> True | Some c \<Rightarrow> c ''sns_caller_arn'' \<noteq> None))"
  by (auto simp add: expandSmsConfiguration_def split: list.splits elem.splits option.splits)

lemma updateParams_Inr_iff:
  "(\<exists>p. updateParams h d = Inr p) \<longleftrightarrow>
     (\<exists>e. (if HasChange email_configuration d
           then expandEmailConfiguration (Get email_configuration d) else Inr None) = Inr e) \<and>
     (\<exists>s. (if HasChange sms_configuration d
           then expandSmsConfiguration (Get sms_configuration d) else Inr None) = Inr s)"
proof
  assume "\<exists>p. updateParams h d = Inr p"
  then obtain p where "updateParams h d = Inr p" ..
  from updateParams_Inr(3,8) [OF this] show
    "(\<exists>e. (if HasChange email_configuration d
           then expandEmailConfiguration (Get email_configuration d) else Inr None) = Inr e) \<and>
     (\<exists>s. (if HasChange sms_configuration d
           then expandSmsConfiguration (Get sms_configuration d) else Inr None) = Inr s)"
    by blast
next
  assume "(\<exists>e. (if HasChange email_configuration d
           then expandEmailConfiguration (Get email_configuration d) else Inr None) = Inr e) \<and>
     (\<exists>s. (if HasChange sms_configuration d
           then expandSmsConfiguration (Get sms_configuration d) else Inr None) = Inr s)"
  then obtain e s where
    e: "(if HasChange email_configuration d
           then expandEmailConfiguration (Get email_configuration d) else Inr None) = Inr e"
    and s: "(if HasChange sms_configuration d
           then expandSmsConfiguration (Get sms_configuration d) else Inr None) = Inr s"
    by blast
  show "\<exists>p. updateParams h d = Inr p"
    by (simp only: updateParams_def e s sum.case) blast
qed

lemma update_dispatches_iff:
  "(\<exists>q. UpdateUserPoolCall q \<in> set (snd (snd (resourceAwsCognitoUserPoolUpdate h conn d)))) \<longleftrightarrow>
     (HasChange email_configuration d \<longrightarrow>
        (\<exists>m cs. Get email_configuration d = ElemMap m # cs)) \<and>
     (HasChange sms_configuration d \<longrightarrow>
        (\<exists>m cs. Get sms_configuration d = ElemMap m # cs \<and>
           (case m of None \<Rightarrow> True | Some c \<Rightarrow> c ''sns_caller_arn'' \<noteq> None)))"
proof -
  have "(\<exists>q. UpdateUserPoolCall q \<in> set (snd (snd (resourceAwsCognitoUserPoolUpdate h conn d))))
      \<longleftrightarrow> (\<exists>p. updateParams h d = Inr p)"
    using update_dispatches_params [of _ h conn d] update_calls [of h d _ conn]
    by (metis list.set_intros(1))
  also have "\<dots> \<longleftrightarrow>
     (HasChange email_configuration d \<longrightarrow>
        (\<exists>m cs. Get email_configuration d = ElemMap m # cs)) \<and>
     (HasChange sms_configuration d \<longrightarrow>
        (\<exists>m cs. Get sms_configuration d = ElemMap m # cs \<and>
           (case m of None \<Rightarrow> True | Some c \<Rightarrow> c ''sns_caller_arn'' \<noteq> None)))"
    unfolding updateParams_Inr_iff
    using expandEmailConfiguration_Inr_iff [of "Get email_configuration d"]
      expandSmsConfiguration_Inr_iff [of "Get sms_configuration d"]
    by (cases "HasChange email_configuration d"; cases "HasChange sms_configuration d") simp_all
  finally show ?thesis .
qed

subsection \<open>Read and a missing user pool\<close>

text \<open>
  C1. Whatever the identifier, when the DescribeUserPool call of Read fails with an AWS
  error whose code is \<^verbatim>\<open>ResourceNotFoundException\<close>, Read returns no error, has made
  that one call, and has cleared the stored identifier (every value is left as it was),
  which is how the caller learns that the resource is gone.
\<close>

theorem read_not_found_is_absent:
  assumes "DescribeUserPool conn \<lparr>r_UserPoolId = Some (rd_id d)\<rparr> =
             Inl (AwsErr ''ResourceNotFoundException'' msg)"
  shows "resourceAwsCognitoUserPoolRead h conn d =
           (None, d\<lparr>rd_id := ''''\<rparr>, [DescribeUserPoolCall \<lparr>r_UserPoolId = Some (rd_id d)\<rparr>])"
  using assms
  by (simp add: resourceAwsCognitoUserPoolRead_def isResourceNotFound_def SetId_def)

theorem read_not_found_is_absent_witness:
  "resourceAwsCognitoUserPoolRead sample_helpers
     (failing_conn (AwsErr ''ResourceNotFoundException'' ''User pool us-east-1_ABC123 does not exist.''))
     \<lparr>rd_id = ''us-east-1_ABC123'', rd_old = zero_values, rd_new = zero_values\<rparr> =
   (None, \<lparr>rd_id = '''', rd_old = zero_values, rd_new = zero_values\<rparr>,
    [DescribeUserPoolCall \<lparr>r_UserPoolId = Some ''us-east-1_ABC123''\<rparr>])"
  using read_not_found_is_absent
    [of "failing_conn (AwsErr ''ResourceNotFoundException'' ''User pool us-east-1_ABC123 does not exist.'')"
        "\<lparr>rd_id = ''us-east-1_ABC123'', rd_old = zero_values, rd_new = zero_values\<rparr>"
        "''User pool us-east-1_ABC123 does not exist.''" sample_helpers]
  by (simp add: failing_conn_def)

subsection \<open>A block without an addressable element\<close>

text \<open>
  C2, as the code has it. Create: where the e-mail or the SMS block list has a first
  element that is not a map, Create returns one of the two shape errors, leaves the
  resource data as it was and makes no call. Update looks at a block only where
  \<^verbatim>\<open>d.HasChange\<close> holds for it: where a changed block has a first element that is not
  a map (and the e-mail block, examined first, has not changed to the empty list),
  Update returns the shape error and makes no call.
\<close>

theorem nil_block_is_shape_error:
  "(nilBlock (Get email_configuration d) \<or> nilBlock (Get sms_configuration d) \<longrightarrow>
      (\<exists>f. resourceAwsCognitoUserPoolCreate h conn d = (Some f, d, []) \<and>
           ConfigurationShapeError f)) \<and>
   ((HasChange email_configuration d \<and> nilBlock (Get email_configuration d)) \<or>
    (HasChange sms_configuration d \<and> nilBlock (Get sms_configuration d) \<and>
       \<not> (HasChange email_configuration d \<and> Get email_configuration d = [])) \<longrightarrow>
      (\<exists>f. resourceAwsCognitoUserPoolUpdate h conn d = (Some f, d, []) \<and>
           ConfigurationShapeError f))"
proof (intro conjI impI)
  assume a: "nilBlock (Get email_configuration d) \<or> nilBlock (Get sms_configuration d)"
  have "\<exists>f. createParams h d = Inl f \<and> ConfigurationShapeError f"
  proof (cases "nilBlock (Get email_configuration d)")
    case True
    then obtain cs where "Get email_configuration d = ElemNil # cs"
      by (auto simp add: nilBlock_iff)
    then have "createParams h d = Inl (Returned (ErrorsNew ''email_configuration is <nil>''))"
      by (intro createParams_email_fails) (simp add: GetOk_def expandEmailConfiguration_nil)
    then show ?thesis
      by (simp add: ConfigurationShapeError_def)
  next
    case False
    with a have "nilBlock (Get sms_configuration d)" by simp
    then obtain cs where cs: "Get sms_configuration d = ElemNil # cs"
      by (auto simp add: nilBlock_iff)
    obtain e where "(if snd (GetOk email_configuration [] d)
            then expandEmailConfiguration (fst (GetOk email_configuration [] d))
            else Inr None) = Inr e"
      using expandEmailConfiguration_passes [OF _ False]
      by (cases "Get email_configuration d = []") (auto simp add: GetOk_def)
    then have "createParams h d = Inl (Returned (ErrorsNew ''sms_configuration is <nil>''))"
      by (rule createParams_sms_fails) (simp add: GetOk_def cs expandSmsConfiguration_nil)
    then show ?thesis
      by (simp add: ConfigurationShapeError_def)
  qed
  then show "\<exists>f. resourceAwsCognitoUserPoolCreate h conn d = (Some f, d, []) \<and>
           ConfigurationShapeError f"
    using create_fails_early by blast
next
  assume a: "(HasChange email_configuration d \<and> nilBlock (Get email_configuration d)) \<or>
    (HasChange sms_configuration d \<and> nilBlock (Get sms_configuration d) \<and>
       \<not> (HasChange email_configuration d \<and> Get email_configuration d = []))"
  have "\<exists>f. updateParams h d = Inl f \<and> ConfigurationShapeError f"
  proof (cases "HasChange email_configuration d \<and> nilBlock (Get email_configuration d)")
    case True
    then obtain cs where "Get email_configuration d = ElemNil # cs"
      by (auto simp add: nilBlock_iff)
    with True
    have "updateParams h d = Inl (Returned (ErrorsNew ''email_configuration is <nil>''))"
      by (intro updateParams_email_fails) (simp add: expandEmailConfiguration_nil)
    then show ?thesis
      by (simp add: ConfigurationShapeError_def)
  next
    case False
    with a have s: "HasChange sms_configuration d" "nilBlock (Get sms_configuration d)"
      and e: "\<not> (HasChange email_configuration d \<and> Get email_configuration d = [])"
      by auto
    from s(2) obtain cs where cs: "Get sms_configuration d = ElemNil # cs"
      by (auto simp add: nilBlock_iff)
    obtain x where "(if HasChange email_configuration d
            then expandEmailConfiguration (Get email_configuration d)
            else Inr None) = Inr x"
      using False e expandEmailConfiguration_passes [of "Get email_configuration d"]
      by (cases "HasChange email_configuration d") auto
    then have "updateParams h d = Inl (Returned (ErrorsNew ''sms_configuration is <nil>''))"
      by (rule updateParams_sms_fails) (simp add: s(1) cs expandSmsConfiguration_nil)
    then show ?thesis
      by (simp add: ConfigurationShapeError_def)
  qed
  then show "\<exists>f. resourceAwsCognitoUserPoolUpdate h conn d = (Some f, d, []) \<and>
           ConfigurationShapeError f"
    using update_fails_early by blast
qed

text \<open>
  At a user pool whose configuration gains an empty e-mail block, both handlers return
  the shape error and make no call.
\<close>

theorem nil_block_is_shape_error_witness:
  "nilBlock (Get email_configuration (stored pool1 (pool1\<lparr>email_configuration := [ElemNil]\<rparr>))) \<and>
   HasChange email_configuration (stored pool1 (pool1\<lparr>email_configuration := [ElemNil]\<rparr>)) \<and>
   (\<exists>f. resourceAwsCognitoUserPoolCreate sample_helpers (serving_conn bare_pool)
           (stored pool1 (pool1\<lparr>email_configuration := [ElemNil]\<rparr>)) =
         (Some f, stored pool1 (pool1\<lparr>email_configuration := [ElemNil]\<rparr>), []) \<and>
        ConfigurationShapeError f) \<and>
   (\<exists>f. resourceAwsCognitoUserPoolUpdate sample_helpers (serving_conn bare_pool)
           (stored pool1 (pool1\<lparr>email_configuration := [ElemNil]\<rparr>)) =
         (Some f, stored pool1 (pool1\<lparr>email_configuration := [ElemNil]\<rparr>), []) \<and>
        ConfigurationShapeError f)"
proof -
  have n: "nilBlock (Get email_configuration
             (stored pool1 (pool1\<lparr>email_configuration := [ElemNil]\<rparr>)))"
    by (simp add: nilBlock_def Get_def stored_def)
  have c: "HasChange email_configuration
             (stored pool1 (pool1\<lparr>email_configuration := [ElemNil]\<rparr>))"
    by (simp add: HasChange_def stored_def pool1_def configValues_def name_only_def)
  show ?thesis
    using n c
      nil_block_is_shape_error
        [of "stored pool1 (pool1\<lparr>email_configuration := [ElemNil]\<rparr>)"
            sample_helpers "serving_conn bare_pool"]
    by simp
qed

text \<open>
  C2 as stated fails for Update: with an e-mail block whose only element is not a map,
  the same in the prior state and in the configuration, \<^verbatim>\<open>d.HasChange\<close> is false, the
  block is not examined, Update sends its request and returns no error.
\<close>

theorem unchanged_nil_block_counterexample:
  "nilBlock (Get email_configuration
     (stored (pool1\<lparr>email_configuration := [ElemNil]\<rparr>)
             (pool1\<lparr>email_configuration := [ElemNil]\<rparr>))) \<and>
   fst (resourceAwsCognitoUserPoolUpdate sample_helpers (serving_conn bare_pool)
     (stored (pool1\<lparr>email_configuration := [ElemNil]\<rparr>)
             (pool1\<lparr>email_configuration := [ElemNil]\<rparr>))) = None \<and>
   snd (snd (resourceAwsCognitoUserPoolUpdate sample_helpers (serving_conn bare_pool)
     (stored (pool1\<lparr>email_configuration := [ElemNil]\<rparr>)
             (pool1\<lparr>email_configuration := [ElemNil]\<rparr>)))) =
     [UpdateUserPoolCall (identifierOnly ''us-east-1_ABC123''),
      DescribeUserPoolCall \<lparr>r_UserPoolId = Some ''us-east-1_ABC123''\<rparr>]"
  by (simp add: nilBlock_def Get_def stored_def resourceAwsCognitoUserPoolUpdate_def
      updateParams_def HasChange_def identifierOnly_def serving_conn_def
      resourceAwsCognitoUserPoolRead_def readBlocks_def readScalars_def bare_pool_def
      sample_helpers_def Set_value_def)

subsection \<open>The request of Update and the changed fields\<close>

text \<open>
  C3. For every prior state and configuration: Update sends an update request exactly
  when each block that has changed can be expanded (its first element is a map, which
  for the SMS block has the caller ARN unless it is nil). A request that Update sends
  carries the identifier of the resource data, changed or not, and of the payload fields
  of the request exactly those whose value has changed: a string field is the new value
  where the key has changed and nil where it has not; the auto-verified attributes and
  the tags are the expansion of the new value where the key has changed and nil where
  it has not; a block is the expansion of the new block list where the block has changed
  and nil where it has not, so that, no element of the list being a nil map, the block
  is part of the request exactly where it has changed.
\<close>

theorem update_request_fields:
  "((\<exists>q. UpdateUserPoolCall q \<in> set (snd (snd (resourceAwsCognitoUserPoolUpdate h conn d)))) \<longleftrightarrow>
      (HasChange email_configuration d \<longrightarrow>
         (\<exists>m cs. Get email_configuration d = ElemMap m # cs)) \<and>
      (HasChange sms_configuration d \<longrightarrow>
         (\<exists>m cs. Get sms_configuration d = ElemMap m # cs \<and>
            (case m of None \<Rightarrow> True | Some c \<Rightarrow> c ''sns_caller_arn'' \<noteq> None)))) \<and>
   (UpdateUserPoolCall p \<in> set (snd (snd (resourceAwsCognitoUserPoolUpdate h conn d))) \<longrightarrow>
    u_UserPoolId p = Some (rd_id d) \<and>
    u_AutoVerifiedAttributes p =
      (if HasChange auto_verified_attributes d
       then expandStringList h (Get auto_verified_attributes d) else None) \<and>
    u_EmailVerificationSubject p =
      (if HasChange email_verification_subject d
       then Some (Get email_verification_subject d) else None) \<and>
    u_EmailVerificationMessage p =
      (if HasChange email_verification_message d
       then Some (Get email_verification_message d) else None) \<and>
    u_MfaConfiguration p =
      (if HasChange mfa_configuration d then Some (Get mfa_configuration d) else None) \<and>
    u_SmsAuthenticationMessage p =
      (if HasChange sms_authentication_message d
       then Some (Get sms_authentication_message d) else None) \<and>
    u_SmsVerificationMessage p =
      (if HasChange sms_verification_message d
       then Some (Get sms_verification_message d) else None) \<and>
    u_UserPoolTags p =
      (if HasChange tags d then tagsFromMapGeneric h (Get tags d) else None) \<and>
    (if HasChange email_configuration d
     then expandEmailConfiguration (Get email_configuration d) else Inr None) =
      Inr (u_EmailConfiguration p) \<and>
    (if HasChange sms_configuration d
     then expandSmsConfiguration (Get sms_configuration d) else Inr None) =
      Inr (u_SmsConfiguration p) \<and>
    (ElemMap None \<notin> set (Get email_configuration d) \<longrightarrow>
       (u_EmailConfiguration p \<noteq> None \<longleftrightarrow> HasChange email_configuration d)) \<and>
    (ElemMap None \<notin> set (Get sms_configuration d) \<longrightarrow>
       (u_SmsConfiguration p \<noteq> None \<longleftrightarrow> HasChange sms_configuration d)))"
proof (intro conjI impI)
  show "(\<exists>q. UpdateUserPoolCall q \<in> set (snd (snd (resourceAwsCognitoUserPoolUpdate h conn d)))) \<longleftrightarrow>
      (HasChange email_configuration d \<longrightarrow>
         (\<exists>m cs. Get email_configuration d = ElemMap m # cs)) \<and>
      (HasChange sms_configuration d \<longrightarrow>
         (\<exists>m cs. Get sms_configuration d = ElemMap m # cs \<and>
            (case m of None \<Rightarrow> True | Some c \<Rightarrow> c ''sns_caller_arn'' \<noteq> None)))"
    by (rule update_dispatches_iff)
next
  assume sent: "UpdateUserPoolCall p \<in> set (snd (snd (resourceAwsCognitoUserPoolUpdate h conn d)))"
  then have p: "updateParams h d = Inr p"
    by (rule update_dispatches_params)
  note f = updateParams_Inr [OF p]
  show "u_UserPoolId p = Some (rd_id d)" by (rule f(1))
  show "u_AutoVerifiedAttributes p =
      (if HasChange auto_verified_attributes d
       then expandStringList h (Get auto_verified_attributes d) else None)" by (rule f(2))
  show "u_EmailVerificationSubject p =
      (if HasChange email_verification_subject d
       then Some (Get email_verification_subject d) else None)" by (rule f(4))
  show "u_EmailVerificationMessage p =
      (if HasChange email_verification_message d
       then Some (Get email_verification_message d) else None)" by (rule f(5))
  show "u_MfaConfiguration p =
      (if HasChange mfa_configuration d then Some (Get mfa_configuration d) else None)"
    by (rule f(6))
  show "u_SmsAuthenticationMessage p =
      (if HasChange sms_authentication_message d
       then Some (Get sms_authentication_message d) else None)" by (rule f(7))
  show "u_SmsVerificationMessage p =
      (if HasChange sms_verification_message d
       then Some (Get sms_verification_message d) else None)" by (rule f(9))
  show "u_UserPoolTags p =
      (if HasChange tags d then tagsFromMapGeneric h (Get tags d) else None)" by (rule f(10))
  show "(if HasChange email_configuration d
     then expandEmailConfiguration (Get email_configuration d) else Inr None) =
      Inr (u_EmailConfiguration p)" by (rule f(3))
  show "(if HasChange sms_configuration d
     then expandSmsConfiguration (Get sms_configuration d) else Inr None) =
      Inr (u_SmsConfiguration p)" by (rule f(8))
  show "u_EmailConfiguration p \<noteq> None \<longleftrightarrow> HasChange email_configuration d"
    if n: "ElemMap None \<notin> set (Get email_configuration d)"
  proof (cases "HasChange email_configuration d")
    case True
    with f(3) have x: "expandEmailConfiguration (Get email_configuration d) =
        Inr (u_EmailConfiguration p)"
      by simp
    then obtain m cs where m: "Get email_configuration d = ElemMap m # cs"
      using expandEmailConfiguration_Inr_iff [of "Get email_configuration d"] by blast
    with n obtain c where "Get email_configuration d = ElemMap (Some c) # cs"
      by (cases m) auto
    with expandEmailConfiguration_Inr [OF x] True show ?thesis by simp
  next
    case False
    with f(3) show ?thesis by simp
  qed
  show "u_SmsConfiguration p \<noteq> None \<longleftrightarrow> HasChange sms_configuration d"
    if n: "ElemMap None \<notin> set (Get sms_configuration d)"
  proof (cases "HasChange sms_configuration d")
    case True
    with f(8) have x: "expandSmsConfiguration (Get sms_configuration d) =
        Inr (u_SmsConfiguration p)"
      by simp
    then obtain m cs where m: "Get sms_configuration d = ElemMap m # cs"
      using expandSmsConfiguration_Inr_iff [of "Get sms_configuration d"] by blast
    with n obtain c where "Get sms_configuration d = ElemMap (Some c) # cs"
      by (cases m) auto
    with expandSmsConfiguration_Inr [OF x] True show ?thesis by simp
  next
    case False
    with f(8) show ?thesis by simp
  qed
qed

text \<open>
  At a user pool whose auto-verified attributes, e-mail block, MFA mode and tags change
  and whose other values stay, Update sends one update request: the identifier, the
  four changed fields from the new values, and nothing of the unchanged ones.
\<close>

theorem update_request_fields_witness:
  "snd (snd (resourceAwsCognitoUserPoolUpdate sample_helpers (serving_conn bare_pool)
       several_changes)) =
     [UpdateUserPoolCall several_changes_request,
      DescribeUserPoolCall \<lparr>r_UserPoolId = Some ''us-east-1_ABC123''\<rparr>] \<and>
   HasChange auto_verified_attributes several_changes \<and>
   HasChange email_configuration several_changes \<and>
   HasChange mfa_configuration several_changes \<and>
   HasChange tags several_changes \<and>
   \<not> HasChange email_verification_subject several_changes \<and>
   \<not> HasChange sms_configuration several_changes \<and>
   ElemMap None \<notin> set (Get email_configuration several_changes) \<and>
   u_UserPoolId several_changes_request = Some (rd_id several_changes) \<and>
   u_AutoVerifiedAttributes several_changes_request =
     expandStringList sample_helpers (Get auto_verified_attributes several_changes) \<and>
   u_MfaConfiguration several_changes_request = Some (Get mfa_configuration several_changes) \<and>
   u_UserPoolTags several_changes_request =
     tagsFromMapGeneric sample_helpers (Get tags several_changes) \<and>
   u_EmailConfiguration several_changes_request \<noteq> None \<and>
   u_EmailVerificationSubject several_changes_request = None \<and>
   u_SmsConfiguration several_changes_request = None"
proof -
  have calls: "snd (snd (resourceAwsCognitoUserPoolUpdate sample_helpers (serving_conn bare_pool)
       several_changes)) =
     [UpdateUserPoolCall several_changes_request,
      DescribeUserPoolCall \<lparr>r_UserPoolId = Some ''us-east-1_ABC123''\<rparr>]"
    by (simp add: several_changes_def several_changes_request_def stored_def
        resourceAwsCognitoUserPoolUpdate_def updateParams_def HasChange_def Get_def
        serving_conn_def read_calls split_beta expandEmailConfiguration_def
        sample_helpers_def pool1_def configValues_def name_only_def UserPoolMfaTypeOff_def
        empty_neq_map_upd)
  have changed:
    "HasChange auto_verified_attributes several_changes"
    "HasChange email_configuration several_changes"
    "HasChange mfa_configuration several_changes"
    "HasChange tags several_changes"
    "\<not> HasChange email_verification_subject several_changes"
    "\<not> HasChange sms_configuration several_changes"
    "ElemMap None \<notin> set (Get email_configuration several_changes)"
    by (simp_all add: several_changes_def stored_def HasChange_def Get_def pool1_def
        configValues_def name_only_def UserPoolMfaTypeOff_def empty_neq_map_upd)
  have sent: "UpdateUserPoolCall several_changes_request \<in>
      set (snd (snd (resourceAwsCognitoUserPoolUpdate sample_helpers (serving_conn bare_pool)
        several_changes)))"
    by (simp add: calls)
  from update_request_fields
    [of sample_helpers "serving_conn bare_pool" several_changes several_changes_request]
    sent changed calls
  show ?thesis
    by simp
qed

subsection \<open>Read and the optional fields of the response\<close>

text \<open>
  C4, as the code has it. When DescribeUserPool answers with a user pool, each of the
  seven fields (alias attributes, auto-verified attributes, e-mail verification subject
  and message, MFA mode, SMS verification and authentication message) is, after Read,
  the value of the response where the response has one, be it empty or not, and the
  value it had before Read where the field of the response is nil.
\<close>

theorem read_writes_present_scalars:
  assumes "DescribeUserPool conn \<lparr>r_UserPoolId = Some (rd_id d)\<rparr> = Inr (Some pool)"
  shows
   "Get alias_attributes (fst (snd (resourceAwsCognitoUserPoolRead h conn d))) =
      (case p_AliasAttributes pool of
         None \<Rightarrow> Get alias_attributes d | Some v \<Rightarrow> flattenStringList h v) \<and>
    Get auto_verified_attributes (fst (snd (resourceAwsCognitoUserPoolRead h conn d))) =
      (case p_AutoVerifiedAttributes pool of
         None \<Rightarrow> Get auto_verified_attributes d | Some v \<Rightarrow> flattenStringList h v) \<and>
    Get email_verification_subject (fst (snd (resourceAwsCognitoUserPoolRead h conn d))) =
      (case p_EmailVerificationSubject pool of
         None \<Rightarrow> Get email_verification_subject d | Some v \<Rightarrow> v) \<and>
    Get email_verification_message (fst (snd (resourceAwsCognitoUserPoolRead h conn d))) =
      (case p_EmailVerificationMessage pool of
         None \<Rightarrow> Get email_verification_message d | Some v \<Rightarrow> v) \<and>
    Get mfa_configuration (fst (snd (resourceAwsCognitoUserPoolRead h conn d))) =
      (case p_MfaConfiguration pool of
         None \<Rightarrow> Get mfa_configuration d | Some v \<Rightarrow> v) \<and>
    Get sms_verification_message (fst (snd (resourceAwsCognitoUserPoolRead h conn d))) =
      (case p_SmsVerificationMessage pool of
         None \<Rightarrow> Get sms_verification_message d | Some v \<Rightarrow> v) \<and>
    Get sms_authentication_message (fst (snd (resourceAwsCognitoUserPoolRead h conn d))) =
      (case p_SmsAuthenticationMessage pool of
         None \<Rightarrow> Get sms_authentication_message d | Some v \<Rightarrow> v)"
  unfolding read_served [OF assms] Get_def
  by (simp add: readBlocks_frame readScalars_values)

text \<open>
  A response with an MFA mode and no e-mail verification subject: Read takes the MFA
  mode of the response and keeps the subject it knew.
\<close>

theorem read_writes_present_scalars_witness:
  "DescribeUserPool (serving_conn (bare_pool\<lparr>p_MfaConfiguration := Some ''ON''\<rparr>))
     \<lparr>r_UserPoolId = Some (rd_id (stored pool1 (pool1\<lparr>email_verification_subject := ''Your code''\<rparr>)))\<rparr> =
     Inr (Some (bare_pool\<lparr>p_MfaConfiguration := Some ''ON''\<rparr>)) \<and>
   Get mfa_configuration (fst (snd (resourceAwsCognitoUserPoolRead sample_helpers
     (serving_conn (bare_pool\<lparr>p_MfaConfiguration := Some ''ON''\<rparr>))
     (stored pool1 (pool1\<lparr>email_verification_subject := ''Your code''\<rparr>))))) = ''ON'' \<and>
   Get email_verification_subject (fst (snd (resourceAwsCognitoUserPoolRead sample_helpers
     (serving_conn (bare_pool\<lparr>p_MfaConfiguration := Some ''ON''\<rparr>))
     (stored pool1 (pool1\<lparr>email_verification_subject := ''Your code''\<rparr>))))) = ''Your code''"
proof -
  have s: "DescribeUserPool (serving_conn (bare_pool\<lparr>p_MfaConfiguration := Some ''ON''\<rparr>))
     \<lparr>r_UserPoolId = Some (rd_id (stored pool1 (pool1\<lparr>email_verification_subject := ''Your code''\<rparr>)))\<rparr> =
     Inr (Some (bare_pool\<lparr>p_MfaConfiguration := Some ''ON''\<rparr>))"
    by (simp add: serving_conn_def)
  from read_writes_present_scalars [OF s, of sample_helpers] s show ?thesis
    by (simp add: bare_pool_def Get_def stored_def)
qed

text \<open>
  C4 as stated fails: the test of Read is that the field of the response is not nil, not
  that its value is not empty. A response whose e-mail verification subject is the empty
  string makes Read put the empty string over the subject it knew.
\<close>

theorem empty_subject_counterexample:
  "p_EmailVerificationSubject (bare_pool\<lparr>p_EmailVerificationSubject := Some ''''\<rparr>) = Some '''' \<and>
   Get email_verification_subject
     (stored pool1 (pool1\<lparr>email_verification_subject := ''Your code''\<rparr>)) = ''Your code'' \<and>
   Get email_verification_subject (fst (snd (resourceAwsCognitoUserPoolRead sample_helpers
     (serving_conn (bare_pool\<lparr>p_EmailVerificationSubject := Some ''''\<rparr>))
     (stored pool1 (pool1\<lparr>email_verification_subject := ''Your code''\<rparr>))))) = ''''"
  by (simp add: stored_def Get_def serving_conn_def
        resourceAwsCognitoUserPoolRead_def readBlocks_def readScalars_def bare_pool_def
        sample_helpers_def Set_value_def)

subsection \<open>Update with nothing changed\<close>

text \<open>
  C5. When the current values equal the values of the prior state, the request that
  Update builds is the identifier and nothing else; Update sends that request first and
  sends no other update request, so that a second run with the same configuration asks
  the service for the same thing.
\<close>

theorem update_without_change_sends_identifier_only:
  assumes "rd_old d = rd_new d"
  shows "updateParams h d = Inr (identifierOnly (rd_id d)) \<and>
    (\<exists>calls. snd (snd (resourceAwsCognitoUserPoolUpdate h conn d)) =
        UpdateUserPoolCall (identifierOnly (rd_id d)) # calls \<and>
        (\<forall>q. UpdateUserPoolCall q \<notin> set calls))"
  using updateParams_unchanged [OF assms] update_calls by simp

theorem update_without_change_sends_identifier_only_witness:
  "rd_old (stored pool1 pool1) = rd_new (stored pool1 pool1) \<and>
   updateParams sample_helpers (stored pool1 pool1) = Inr (identifierOnly ''us-east-1_ABC123'') \<and>
   snd (snd (resourceAwsCognitoUserPoolUpdate sample_helpers (serving_conn bare_pool)
     (stored pool1 pool1))) =
     [UpdateUserPoolCall (identifierOnly ''us-east-1_ABC123''),
      DescribeUserPoolCall \<lparr>r_UserPoolId = Some ''us-east-1_ABC123''\<rparr>]"
proof -
  have e: "rd_old (stored pool1 pool1) = rd_new (stored pool1 pool1)"
    by (simp add: stored_def)
  from update_without_change_sends_identifier_only
    [OF e, of sample_helpers "serving_conn bare_pool"] e
  show ?thesis
    by (auto simp add: stored_def resourceAwsCognitoUserPoolUpdate_def serving_conn_def
        read_calls split_beta)
qed

subsection \<open>Update and the alias attributes\<close>

text \<open>
  C6. The request of Update does not depend on the alias attributes: whatever alias
  attributes the prior state and the configuration have, equal or not, Update builds
  the same request (or fails in the same way) and sends the same update request. The
  request has no field for them, so Update cannot ask the service to change them.
\<close>

theorem update_ignores_alias_attributes:
  "updateParams h
     (d\<lparr>rd_old := (rd_old d)\<lparr>alias_attributes := a\<rparr>,
        rd_new := (rd_new d)\<lparr>alias_attributes := b\<rparr>\<rparr>) = updateParams h d \<and>
   (UpdateUserPoolCall p \<in> set (snd (snd (resourceAwsCognitoUserPoolUpdate h conn
       (d\<lparr>rd_old := (rd_old d)\<lparr>alias_attributes := a\<rparr>,
          rd_new := (rd_new d)\<lparr>alias_attributes := b\<rparr>\<rparr>)))) \<longleftrightarrow>
    UpdateUserPoolCall p \<in> set (snd (snd (resourceAwsCognitoUserPoolUpdate h conn d))))"
proof -
  let ?d = "d\<lparr>rd_old := (rd_old d)\<lparr>alias_attributes := a\<rparr>,
        rd_new := (rd_new d)\<lparr>alias_attributes := b\<rparr>\<rparr>"
  have same:
    "rd_id ?d = rd_id d"
    "HasChange auto_verified_attributes ?d = HasChange auto_verified_attributes d"
    "HasChange email_configuration ?d = HasChange email_configuration d"
    "HasChange email_verification_subject ?d = HasChange email_verification_subject d"
    "HasChange email_verification_message ?d = HasChange email_verification_message d"
    "HasChange mfa_configuration ?d = HasChange mfa_configuration d"
    "HasChange sms_authentication_message ?d = HasChange sms_authentication_message d"
    "HasChange sms_configuration ?d = HasChange sms_configuration d"
    "HasChange sms_verification_message ?d = HasChange sms_verification_message d"
    "HasChange tags ?d = HasChange tags d"
    "Get auto_verified_attributes ?d = Get auto_verified_attributes d"
    "Get email_configuration ?d = Get email_configuration d"
    "Get email_verification_subject ?d = Get email_verification_subject d"
    "Get email_verification_message ?d = Get email_verification_message d"
    "Get mfa_configuration ?d = Get mfa_configuration d"
    "Get sms_authentication_message ?d = Get sms_authentication_message d"
    "Get sms_configuration ?d = Get sms_configuration d"
    "Get sms_verification_message ?d = Get sms_verification_message d"
    "Get tags ?d = Get tags d"
    by (simp_all add: HasChange_def Get_def)
  have eq: "updateParams h ?d = updateParams h d"
    by (simp only: updateParams_def same)
  have "UpdateUserPoolCall p \<in> set (snd (snd (resourceAwsCognitoUserPoolUpdate h conn d')))
      \<longleftrightarrow> updateParams h d' = Inr p" for d'
    using update_dispatches_params [of p h conn d'] update_calls [of h d' p conn]
    by auto
  with eq show ?thesis by simp
qed

text \<open>
  At a user pool whose alias attributes change from none to \<^verbatim>\<open>email\<close> and whose other
  values stay, the request is the identifier alone, as it is with no change at all.
\<close>

theorem update_ignores_alias_attributes_witness:
  "updateParams sample_helpers (stored pool1 (pool1\<lparr>alias_attributes := [''email'']\<rparr>)) =
     Inr (identifierOnly ''us-east-1_ABC123'')"
proof -
  have "stored pool1 (pool1\<lparr>alias_attributes := [''email'']\<rparr>) =
      (stored pool1 pool1)
        \<lparr>rd_old := (rd_old (stored pool1 pool1))\<lparr>alias_attributes := []\<rparr>,
          rd_new := (rd_new (stored pool1 pool1))\<lparr>alias_attributes := [''email'']\<rparr>\<rparr>"
    by (simp add: stored_def pool1_def configValues_def name_only_def)
  with update_ignores_alias_attributes
    [where h = sample_helpers and d = "stored pool1 pool1" and a = "[]" and b = "[''email'']"]
  show ?thesis
    by (simp add: updateParams_unchanged stored_def)
qed

subsection \<open>The default of the MFA mode\<close>

text \<open>
  C7. For a configuration that omits \<^verbatim>\<open>mfa_configuration\<close>, the value that the
  handlers read is the default of the schema, \<^verbatim>\<open>OFF\<close>; every CreateUserPool request
  that Create sends for it carries that MFA mode; and Create does send one where the
  configuration has neither an e-mail nor an SMS block that could be malformed.
\<close>

theorem mfa_configuration_defaults_to_off:
  assumes "cfg_mfa_configuration c = None" and "rd_new d = configValues c"
  shows "Get mfa_configuration d = UserPoolMfaTypeOff \<and>
    (\<forall>p. CreateUserPoolCall p \<in> set (snd (snd (resourceAwsCognitoUserPoolCreate h conn d))) \<longrightarrow>
       c_MfaConfiguration p = Some UserPoolMfaTypeOff) \<and>
    (cfg_email_configuration c = None \<and> cfg_sms_configuration c = None \<longrightarrow>
       (\<exists>p calls. snd (snd (resourceAwsCognitoUserPoolCreate h conn d)) =
          CreateUserPoolCall p # calls \<and> c_MfaConfiguration p = Some UserPoolMfaTypeOff))"
proof -
  have g: "Get mfa_configuration d = UserPoolMfaTypeOff"
    by (simp add: Get_def assms configValues_def)
  have m: "c_MfaConfiguration p = Some UserPoolMfaTypeOff" if "createParams h d = Inr p" for p
    using createParams_Inr(2) [OF that] g
    by (simp add: GetOk_def UserPoolMfaTypeOff_def)
  have "\<exists>p calls. snd (snd (resourceAwsCognitoUserPoolCreate h conn d)) =
          CreateUserPoolCall p # calls \<and> c_MfaConfiguration p = Some UserPoolMfaTypeOff"
    if "cfg_email_configuration c = None \<and> cfg_sms_configuration c = None"
  proof -
    from that have "Get email_configuration d = []" "Get sms_configuration d = []"
      by (simp_all add: Get_def assms configValues_def)
    then obtain p where p: "createParams h d = Inr p"
      using createParams_succeeds by blast
    from create_calls [OF p] m [OF p] show ?thesis by blast
  qed
  with g m create_dispatches_params show ?thesis
    by blast
qed

theorem mfa_configuration_defaults_to_off_witness:
  "cfg_mfa_configuration (name_only ''pool1'') = None \<and>
   rd_new (newResourceData (name_only ''pool1'')) = configValues (name_only ''pool1'') \<and>
   Get mfa_configuration (newResourceData (name_only ''pool1'')) = ''OFF'' \<and>
   (\<exists>p calls. snd (snd (resourceAwsCognitoUserPoolCreate sample_helpers (serving_conn bare_pool)
        (newResourceData (name_only ''pool1'')))) = CreateUserPoolCall p # calls \<and>
      c_MfaConfiguration p = Some ''OFF'')"
proof -
  have a: "cfg_mfa_configuration (name_only ''pool1'') = None"
    by (simp add: name_only_def)
  have b: "rd_new (newResourceData (name_only ''pool1'')) = configValues (name_only ''pool1'')"
    by (simp add: newResourceData_def)
  have c: "cfg_email_configuration (name_only ''pool1'') = None \<and>
      cfg_sms_configuration (name_only ''pool1'') = None"
    by (simp add: name_only_def)
  from mfa_configuration_defaults_to_off
    [OF a b, of sample_helpers "serving_conn bare_pool"] a b c
  show ?thesis
    by (simp add: UserPoolMfaTypeOff_def)
qed

subsection \<open>Remote errors, wrapped and not\<close>

text \<open>
  C8. An error of DescribeUserPool that is not of the not-found class is what Read
  returns, as it is; an error of CreateUserPool, UpdateUserPool or DeleteUserPool is
  returned by Create, Update or Delete wrapped in a message that names the operation.
\<close>

theorem remote_errors_read_unwrapped_others_wrapped:
  "(DescribeUserPool conn \<lparr>r_UserPoolId = Some (rd_id d)\<rparr> = Inl err \<and>
      \<not> isResourceNotFound err \<longrightarrow>
      resourceAwsCognitoUserPoolRead h conn d =
        (Some (Returned err), d, [DescribeUserPoolCall \<lparr>r_UserPoolId = Some (rd_id d)\<rparr>])) \<and>
   (createParams h d = Inr cp \<and> CreateUserPool conn cp = Inl err \<longrightarrow>
      resourceAwsCognitoUserPoolCreate h conn d =
        (Some (Returned (Wrapf ''Error creating Cognito User Pool: {{err}}'' err)), d,
         [CreateUserPoolCall cp])) \<and>
   (updateParams h d = Inr up \<and> UpdateUserPool conn up = Inl err \<longrightarrow>
      resourceAwsCognitoUserPoolUpdate h conn d =
        (Some (Returned (Wrapf ''Error updating Cognito User pool: {{err}}'' err)), d,
         [UpdateUserPoolCall up])) \<and>
   (DeleteUserPool conn \<lparr>x_UserPoolId = Some (rd_id d)\<rparr> = Inl err \<longrightarrow>
      resourceAwsCognitoUserPoolDelete conn d =
        (Some (Returned (Wrapf ''Error deleting user pool: {{err}}'' err)), d,
         [DeleteUserPoolCall \<lparr>x_UserPoolId = Some (rd_id d)\<rparr>]))"
  by (simp add: resourceAwsCognitoUserPoolRead_def resourceAwsCognitoUserPoolCreate_def
      resourceAwsCognitoUserPoolUpdate_def resourceAwsCognitoUserPoolDelete_def)

text \<open>With a service that answers every call with an internal error:\<close>

theorem remote_errors_read_unwrapped_others_wrapped_witness:
  "\<not> isResourceNotFound (AwsErr ''InternalErrorException'' ''internal error'') \<and>
   resourceAwsCognitoUserPoolRead sample_helpers
     (failing_conn (AwsErr ''InternalErrorException'' ''internal error'')) (stored pool1 pool1) =
     (Some (Returned (AwsErr ''InternalErrorException'' ''internal error'')), stored pool1 pool1,
      [DescribeUserPoolCall \<lparr>r_UserPoolId = Some ''us-east-1_ABC123''\<rparr>]) \<and>
   fst (resourceAwsCognitoUserPoolCreate sample_helpers
     (failing_conn (AwsErr ''InternalErrorException'' ''internal error'')) (stored pool1 pool1)) =
     Some (Returned (Wrapf ''Error creating Cognito User Pool: {{err}}''
       (AwsErr ''InternalErrorException'' ''internal error''))) \<and>
   resourceAwsCognitoUserPoolUpdate sample_helpers
     (failing_conn (AwsErr ''InternalErrorException'' ''internal error'')) (stored pool1 pool1) =
     (Some (Returned (Wrapf ''Error updating Cognito User pool: {{err}}''
        (AwsErr ''InternalErrorException'' ''internal error''))), stored pool1 pool1,
      [UpdateUserPoolCall (identifierOnly ''us-east-1_ABC123'')]) \<and>
   resourceAwsCognitoUserPoolDelete
     (failing_conn (AwsErr ''InternalErrorException'' ''internal error'')) (stored pool1 pool1) =
     (Some (Returned (Wrapf ''Error deleting user pool: {{err}}''
        (AwsErr ''InternalErrorException'' ''internal error''))), stored pool1 pool1,
      [DeleteUserPoolCall \<lparr>x_UserPoolId = Some ''us-east-1_ABC123''\<rparr>])"
proof -
  let ?e = "AwsErr ''InternalErrorException'' ''internal error''"
  have n: "\<not> isResourceNotFound ?e"
    by (simp add: isResourceNotFound_def)
  obtain cp where cp: "createParams sample_helpers (stored pool1 pool1) = Inr cp"
    using createParams_succeeds [of "stored pool1 pool1" sample_helpers]
    by (auto simp add: Get_def stored_def pool1_def configValues_def name_only_def)
  have up: "updateParams sample_helpers (stored pool1 pool1) =
      Inr (identifierOnly ''us-east-1_ABC123'')"
    using updateParams_unchanged [of "stored pool1 pool1" sample_helpers]
    by (simp add: stored_def)
  have i: "rd_id (stored pool1 pool1) = ''us-east-1_ABC123''"
    by (simp add: stored_def)
  from remote_errors_read_unwrapped_others_wrapped
    [of "failing_conn ?e" "stored pool1 pool1" ?e sample_helpers cp
        "identifierOnly ''us-east-1_ABC123''"]
    n cp up
  show ?thesis
    by (simp add: failing_conn_def i)
qed

subsection \<open>Read, the blocks and the tags\<close>

text \<open>
  C9. When DescribeUserPool answers with a user pool, the three helpers return and
  \<^verbatim>\<open>d.Set\<close> takes the two block lists, Read returns no error and has written the
  e-mail block, the SMS block and the tags from the response, with no test of what the
  response has and whatever the values were before: a block is one element for every
  map of the flattening of the response's field, each with the two keys of the block
  (the empty string for a key the flattening does not set), and the tags are what the
  helper makes of the response's tags. So a block that the response does not have, and
  whose flattening is the empty list, leaves the block empty.
\<close>

theorem read_writes_blocks_and_tags:
  assumes "DescribeUserPool conn \<lparr>r_UserPoolId = Some (rd_id d)\<rparr> = Inr (Some pool)"
    and "flattenCognitoUserPoolEmailConfiguration h (p_EmailConfiguration pool) = Returns email"
    and "flattenCognitoUserPoolSmsConfiguration h (p_SmsConfiguration pool) = Returns sms"
    and "tagsToMapGeneric h (p_UserPoolTags pool) = Returns t"
    and "SetError h ''email_configuration'' email = None"
    and "SetError h ''sms_configuration'' sms = None"
  shows
   "fst (resourceAwsCognitoUserPoolRead h conn d) = None \<and>
    Get email_configuration (fst (snd (resourceAwsCognitoUserPoolRead h conn d))) =
      map (\<lambda>m. ElemMap (Some (\<lambda>k.
             if k = ''reply_to_email_address'' \<or> k = ''source_arn''
             then Some (case m k of None \<Rightarrow> '''' | Some v \<Rightarrow> v) else None))) email \<and>
    Get sms_configuration (fst (snd (resourceAwsCognitoUserPoolRead h conn d))) =
      map (\<lambda>m. ElemMap (Some (\<lambda>k.
             if k = ''external_id'' \<or> k = ''sns_caller_arn''
             then Some (case m k of None \<Rightarrow> '''' | Some v \<Rightarrow> v) else None))) sms \<and>
    Get tags (fst (snd (resourceAwsCognitoUserPoolRead h conn d))) = t \<and>
    (p_EmailConfiguration pool = None \<and> email = [] \<longrightarrow>
       Get email_configuration (fst (snd (resourceAwsCognitoUserPoolRead h conn d))) = []) \<and>
    (p_SmsConfiguration pool = None \<and> sms = [] \<longrightarrow>
       Get sms_configuration (fst (snd (resourceAwsCognitoUserPoolRead h conn d))) = [])"
  unfolding read_served [OF assms(1)] Get_def
  using readBlocks_written [OF assms(2-6)]
  by (simp add: blockList_def emailConfigurationKeys_def smsConfigurationKeys_def)

text \<open>
  A user pool known with an SMS block, no e-mail block and a tag, and a response with an
  e-mail block that has a source ARN only, with no SMS block and with another tag: after
  Read the SMS block is the empty list, the e-mail block has one element with the
  source ARN of the response and an empty reply-to address, and the tag is the
  response's.
\<close>

theorem read_writes_blocks_and_tags_witness:
  "DescribeUserPool (serving_conn pool_with_email)
     \<lparr>r_UserPoolId = Some (rd_id known_with_sms)\<rparr> = Inr (Some pool_with_email) \<and>
   p_SmsConfiguration pool_with_email = None \<and>
   Get sms_configuration known_with_sms \<noteq> [] \<and>
   Get email_configuration known_with_sms = [] \<and>
   fst (resourceAwsCognitoUserPoolRead sample_helpers (serving_conn pool_with_email)
     known_with_sms) = None \<and>
   Get sms_configuration (fst (snd (resourceAwsCognitoUserPoolRead sample_helpers
     (serving_conn pool_with_email) known_with_sms))) = [] \<and>
   (\<exists>m. Get email_configuration (fst (snd (resourceAwsCognitoUserPoolRead sample_helpers
          (serving_conn pool_with_email) known_with_sms))) = [ElemMap (Some m)] \<and>
        m ''source_arn'' = Some ''arn:aws:ses:x'' \<and>
        m ''reply_to_email_address'' = Some '''') \<and>
   Get tags (fst (snd (resourceAwsCognitoUserPoolRead sample_helpers
     (serving_conn pool_with_email) known_with_sms))) = [''env'' \<mapsto> ''prod'']"
proof -
  have s: "DescribeUserPool (serving_conn pool_with_email)
     \<lparr>r_UserPoolId = Some (rd_id known_with_sms)\<rparr> = Inr (Some pool_with_email)"
    by (simp add: serving_conn_def)
  have e: "flattenCognitoUserPoolEmailConfiguration sample_helpers
      (p_EmailConfiguration pool_with_email) =
      Returns [\<lambda>k. if k = ''reply_to_email_address'' then None
                   else if k = ''source_arn'' then Some ''arn:aws:ses:x'' else None]"
    by (simp add: sample_helpers_def pool_with_email_def fun_eq_iff)
  have m: "flattenCognitoUserPoolSmsConfiguration sample_helpers
      (p_SmsConfiguration pool_with_email) = Returns []"
    by (simp add: sample_helpers_def pool_with_email_def bare_pool_def)
  have t: "tagsToMapGeneric sample_helpers (p_UserPoolTags pool_with_email) =
      Returns [''env'' \<mapsto> ''prod'']"
    by (simp add: sample_helpers_def pool_with_email_def)
  have se: "SetError sample_helpers ''email_configuration''
      [\<lambda>k. if k = ''reply_to_email_address'' then None
           else if k = ''source_arn'' then Some ''arn:aws:ses:x'' else None] = None"
    by (simp add: sample_helpers_def)
  have sm: "SetError sample_helpers ''sms_configuration'' [] = None"
    by (simp add: sample_helpers_def)
  have k: "p_SmsConfiguration pool_with_email = None"
    "Get sms_configuration known_with_sms \<noteq> []"
    "Get email_configuration known_with_sms = []"
    by (simp_all add: pool_with_email_def bare_pool_def known_with_sms_def stored_def Get_def
        pool1_def configValues_def name_only_def)
  from read_writes_blocks_and_tags [OF s e m t se sm] s k show ?thesis
    by simp
qed

subsection \<open>The first element of a block list\<close>

text \<open>
  C10. The first element of a block list is taken with no test of the length, so the
  expansion of a block panics with an index out of range exactly on the empty list.
  Create expands a block only where \<^verbatim>\<open>d.GetOk\<close> has found a list that is not empty,
  and never panics so. Update expands a block where \<^verbatim>\<open>d.HasChange\<close> holds, which an
  empty list can satisfy: where the e-mail block has changed to the empty list, or the
  e-mail block has not changed and the SMS block has changed to the empty list, Update
  panics with an index out of range before any call.
\<close>

theorem first_element_access_bounds:
  "(expandEmailConfiguration configs = Inl (Panicked IndexOutOfRange) \<longleftrightarrow> configs = []) \<and>
   (expandSmsConfiguration configs = Inl (Panicked IndexOutOfRange) \<longleftrightarrow> configs = []) \<and>
   createParams h d \<noteq> Inl (Panicked IndexOutOfRange) \<and>
   fst (resourceAwsCognitoUserPoolCreate h conn d) \<noteq> Some (Panicked IndexOutOfRange) \<and>
   (HasChange email_configuration d \<and> Get email_configuration d = [] \<longrightarrow>
      resourceAwsCognitoUserPoolUpdate h conn d = (Some (Panicked IndexOutOfRange), d, [])) \<and>
   (\<not> HasChange email_configuration d \<and>
    HasChange sms_configuration d \<and> Get sms_configuration d = [] \<longrightarrow>
      resourceAwsCognitoUserPoolUpdate h conn d = (Some (Panicked IndexOutOfRange), d, []))"
proof (intro conjI impI)
  show "expandEmailConfiguration configs = Inl (Panicked IndexOutOfRange) \<longleftrightarrow> configs = []"
    by (rule expandEmailConfiguration_index_panic)
  show "expandSmsConfiguration configs = Inl (Panicked IndexOutOfRange) \<longleftrightarrow> configs = []"
    by (rule expandSmsConfiguration_index_panic)
  show "createParams h d \<noteq> Inl (Panicked IndexOutOfRange)"
    using createParams_Inl [of h d "Panicked IndexOutOfRange"]
    by (auto simp add: expandEmailConfiguration_index_panic expandSmsConfiguration_index_panic)
  show "fst (resourceAwsCognitoUserPoolCreate h conn d) \<noteq> Some (Panicked IndexOutOfRange)"
    by (rule create_no_index_panic)
next
  assume "HasChange email_configuration d \<and> Get email_configuration d = []"
  then have "updateParams h d = Inl (Panicked IndexOutOfRange)"
    by (intro updateParams_email_fails) (simp add: expandEmailConfiguration_def)
  then show "resourceAwsCognitoUserPoolUpdate h conn d =
      (Some (Panicked IndexOutOfRange), d, [])"
    by (rule update_fails_early)
next
  assume a: "\<not> HasChange email_configuration d \<and>
    HasChange sms_configuration d \<and> Get sms_configuration d = []"
  then have "(if HasChange email_configuration d
            then expandEmailConfiguration (Get email_configuration d)
            else Inr None) = Inr None"
    by simp
  then have "updateParams h d = Inl (Panicked IndexOutOfRange)"
    by (rule updateParams_sms_fails) (simp add: a expandSmsConfiguration_def)
  then show "resourceAwsCognitoUserPoolUpdate h conn d =
      (Some (Panicked IndexOutOfRange), d, [])"
    by (rule update_fails_early)
qed

text \<open>
  A user pool known with an e-mail block, and a configuration without the block: Update
  panics and makes no call; Create on the same data does not panic so.
\<close>

theorem first_element_access_bounds_witness:
  "HasChange email_configuration
     (stored (pool1\<lparr>email_configuration := [ElemMap (Some Map.empty)]\<rparr>) pool1) \<and>
   Get email_configuration
     (stored (pool1\<lparr>email_configuration := [ElemMap (Some Map.empty)]\<rparr>) pool1) = [] \<and>
   resourceAwsCognitoUserPoolUpdate sample_helpers (serving_conn bare_pool)
     (stored (pool1\<lparr>email_configuration := [ElemMap (Some Map.empty)]\<rparr>) pool1) =
   (Some (Panicked IndexOutOfRange),
    stored (pool1\<lparr>email_configuration := [ElemMap (Some Map.empty)]\<rparr>) pool1, []) \<and>
   fst (resourceAwsCognitoUserPoolCreate sample_helpers (serving_conn bare_pool)
     (stored (pool1\<lparr>email_configuration := [ElemMap (Some Map.empty)]\<rparr>) pool1)) \<noteq>
     Some (Panicked IndexOutOfRange)"
proof -
  have c: "HasChange email_configuration
     (stored (pool1\<lparr>email_configuration := [ElemMap (Some Map.empty)]\<rparr>) pool1)"
    by (simp add: HasChange_def stored_def pool1_def configValues_def name_only_def)
  have g: "Get email_configuration
     (stored (pool1\<lparr>email_configuration := [ElemMap (Some Map.empty)]\<rparr>) pool1) = []"
    by (simp add: Get_def stored_def pool1_def configValues_def name_only_def)
  show ?thesis
    using c g
      first_element_access_bounds
        [of _ sample_helpers
            "stored (pool1\<lparr>email_configuration := [ElemMap (Some Map.empty)]\<rparr>) pool1"
            "serving_conn bare_pool"]
    by simp
qed

end
